theory Spec2Isabelle
  imports Complex_Main
begin

section \<open>Focal loss for LightGBM with a Hyperopt search: the notebook's code\<close>

text \<open>
  The development follows \<^verbatim>\<open>examples/Hyperopt_LightGBM_with_Focal_Loss.ipynb\<close>.

  Numbers. A Python or numpy float is modelled by a real number: arithmetic is exact, rounding
  is not represented. Two things of IEEE arithmetic are written out, because the code can
  reach them on finite inputs:
  \<^item> \<^verbatim>\<open>np.exp\<close> overflows to \<^verbatim>\<open>inf\<close> when its exact result is beyond the largest double;
  \<^item> \<^verbatim>\<open>np.log\<close> and \<^verbatim>\<open>**\<close> yield \<^verbatim>\<open>inf\<close>, \<^verbatim>\<open>-inf\<close> or \<^verbatim>\<open>nan\<close> outside their domain.
  A value of type \<open>real option\<close> is a float that may be non-finite: \<open>Some r\<close> is the finite
  number \<open>r\<close> and \<open>None\<close> stands for \<^verbatim>\<open>inf\<close>, \<^verbatim>\<open>-inf\<close> or \<^verbatim>\<open>nan\<close>. numpy raises nothing in
  these cases (it emits a RuntimeWarning and carries on), so they are values, not errors.

  What exact arithmetic leaves out: the rounding error of each operation, and its
  consequences. In particular \<open>1 + exp (- x)\<close> is never exactly 1 here, so the probability
  \<open>p\<close> of the focal loss is always below 1, whereas in double arithmetic it is 1.0 for raw
  scores above about 36.7, and \<^verbatim>\<open>np.log(1-p)\<close> is then \<^verbatim>\<open>-inf\<close>. The step \<^verbatim>\<open>1e-6\<close> is the real
  number \<open>10\<^sup>-\<^sup>6\<close>.
\<close>

subsection \<open>Python values and exceptions\<close>

datatype py_error = KeyError | IndexError | ValueError | AllTrialsFailed

datatype pyval = PyInt int | PyFloat real

text \<open>A configuration dictionary: parameter name to value.\<close>

type_synonym config = "string \<rightharpoonup> pyval"

text \<open>\<^verbatim>\<open>int(v)\<close>: the identity on an int, truncation towards zero on a float.\<close>

fun py_int :: "pyval \<Rightarrow> int" where
  "py_int (PyInt n) = n"
| "py_int (PyFloat x) = (if 0 \<le> x then \<lfloor>x\<rfloor> else \<lceil>x\<rceil>)"

text \<open>The numeric value of a dictionary entry where the code uses it as a float.\<close>

fun py_float :: "pyval \<Rightarrow> real" where
  "py_float (PyInt n) = of_int n"
| "py_float (PyFloat x) = x"

text \<open>
  \<^verbatim>\<open>round(x, ndigits)\<close> on a float: the nearest multiple of \<open>10 ^ -ndigits\<close>, a tie going to the
  even multiple.
\<close>

definition round_half_even :: "real \<Rightarrow> int" where
  "round_half_even y =
     (let f = \<lfloor>y\<rfloor>; d = y - of_int f
      in if d < 1 / 2 then f
         else if 1 / 2 < d then f + 1
         else if even f then f else f + 1)"

definition py_round :: "real \<Rightarrow> nat \<Rightarrow> real" where
  "py_round x ndigits = of_int (round_half_even (x * 10 ^ ndigits)) / 10 ^ ndigits"

subsection \<open>numpy primitives\<close>

text \<open>The largest finite double, \<open>(2 - 2\<^sup>-\<^sup>5\<^sup>2) \<cdot> 2\<^sup>1\<^sup>0\<^sup>2\<^sup>3\<close>.\<close>

definition DBL_MAX :: real where
  "DBL_MAX = (2 - 1 / 2 ^ 52) * 2 ^ 1023"

text \<open>
  \<^verbatim>\<open>np.exp(y)\<close> for a finite \<open>y\<close>: the exponential, or \<^verbatim>\<open>inf\<close> (with numpy's
  "overflow encountered in exp") when it does not fit a double. \<open>None\<close> is \<^verbatim>\<open>inf\<close> here.
\<close>

definition np_exp :: "real \<Rightarrow> real option" where
  "np_exp y = (if DBL_MAX < exp y then None else Some (exp y))"

text \<open>
  \<^verbatim>\<open>np.log(p)\<close>: \<^verbatim>\<open>-inf\<close> at 0 and \<^verbatim>\<open>nan\<close> below 0.
\<close>

definition np_log :: "real \<Rightarrow> real option" where
  "np_log p = (if 0 < p then Some (ln p) else None)"

text \<open>
  \<^verbatim>\<open>b ** g\<close> on floats: 1 for \<open>g = 0\<close> whatever the base; for a zero base 0 if \<open>g > 0\<close> and
  \<^verbatim>\<open>inf\<close> if \<open>g < 0\<close>; for a negative base the signed power if \<open>g\<close> is a whole number and
  \<^verbatim>\<open>nan\<close> otherwise.
\<close>

definition np_power :: "real \<Rightarrow> real \<Rightarrow> real option" where
  "np_power b g =
     (if g = 0 then Some 1
      else if 0 < b then Some (b powr g)
      else if b = 0 then (if 0 < g then Some 0 else None)
      else if g = of_int \<lfloor>g\<rfloor> then Some (power_int b \<lfloor>g\<rfloor>)
      else None)"

text \<open>
  An elementwise binary operation on two one-dimensional arrays, with numpy's broadcasting:
  equal lengths, or one of the two of length 1; anything else raises ValueError
  ("operands could not be broadcast together").
\<close>

definition np_broadcast :: "('a \<Rightarrow> 'b \<Rightarrow> 'c) \<Rightarrow> 'a list \<Rightarrow> 'b list \<Rightarrow> py_error + 'c list" where
  "np_broadcast f xs ys =
     (if length xs = length ys then Inr (map2 f xs ys)
      else if length ys = 1 then Inr (map (\<lambda>x. f x (hd ys)) xs)
      else if length xs = 1 then Inr (map (\<lambda>y. f (hd xs) y) ys)
      else Inl ValueError)"

subsection \<open>The sigmoid\<close>

text \<open>
  \<^verbatim>\<open>def sigmoid(x): return 1./(1. +  np.exp(-x))\<close>

  When the exponential overflows, \<^verbatim>\<open>1. + inf\<close> is \<^verbatim>\<open>inf\<close> and \<^verbatim>\<open>1./inf\<close> is 0.
\<close>

definition sigmoid :: "real \<Rightarrow> real" where
  "sigmoid x = (case np_exp (- x) of None \<Rightarrow> 0 | Some e \<Rightarrow> 1 / (1 + e))"

text \<open>Whether the exponential that \<^verbatim>\<open>sigmoid(x)\<close> evaluates overflows.\<close>

definition sigmoid_exp_overflows :: "real \<Rightarrow> bool" where
  "sigmoid_exp_overflows x = (np_exp (- x) = None)"

subsection \<open>The focal loss and its derivatives\<close>

text \<open>The first line of \<^verbatim>\<open>fl\<close>: \<^verbatim>\<open>p = 1/(1+np.exp(-x))\<close>.\<close>

definition fl_p :: "real \<Rightarrow> real" where
  "fl_p x = (case np_exp (- x) of None \<Rightarrow> 0 | Some e \<Rightarrow> 1 / (1 + e))"

definition fl_p_exp_overflows :: "real \<Rightarrow> bool" where
  "fl_p_exp_overflows x = (np_exp (- x) = None)"

text \<open>
  \<^verbatim>\<open>
  def fl(x,t):
      p = 1/(1+np.exp(-x))
      return -( a*t + (1-a)*(1-t) ) * (( 1 - ( t*p + (1-t)*(1-p)) )**g)
               * ( t*np.log(p)+(1-t)*np.log(1-p) )
  \<close>
  for one score \<open>x\<close> and one label \<open>t\<close>, with \<open>a\<close> and \<open>g\<close> from the enclosing call. A product
  or sum with a non-finite operand is non-finite (\<^verbatim>\<open>0 * inf\<close> is \<^verbatim>\<open>nan\<close>), so the result is
  \<open>None\<close> as soon as the power or one of the logarithms is.
\<close>

definition fl :: "real \<Rightarrow> real \<Rightarrow> real \<Rightarrow> real \<Rightarrow> real option" where
  "fl a g x t =
     (let p = fl_p x in
      case np_power (1 - (t * p + (1 - t) * (1 - p))) g of
        None \<Rightarrow> None
      | Some w \<Rightarrow>
         (case np_log p of
            None \<Rightarrow> None
          | Some l1 \<Rightarrow>
             (case np_log (1 - p) of
                None \<Rightarrow> None
              | Some l0 \<Rightarrow>
                 Some (- (a * t + (1 - a) * (1 - t)) * w * (t * l1 + (1 - t) * l0)))))"

text \<open>
  \<^verbatim>\<open>fl\<close> applied to the arrays \<open>x\<close> and \<open>t\<close>: every operation is elementwise, and the first
  one that combines the two arrays (\<^verbatim>\<open>t*p\<close>) broadcasts them or raises.
\<close>

definition fl_array :: "real \<Rightarrow> real \<Rightarrow> real list \<Rightarrow> real list \<Rightarrow> py_error + real option list" where
  "fl_array a g xs ts = np_broadcast (fl a g) xs ts"

text \<open>
  Modelled from the spec: \<^verbatim>\<open>derivative\<close> is imported from \<^verbatim>\<open>scipy.misc\<close> and is not among the
  sources. The spec's Numeric Derivative Engine takes a function, an array of evaluation
  points, an order \<open>n \<in> {1, 2}\<close> and a step, and returns the central finite-difference
  approximation at each point: the centred difference for \<open>n = 1\<close>, the centred three-point
  stencil for \<open>n = 2\<close>. It is written here the way the library computes it with its default
  of three points: the weights \<open>[-1/2, 0, 1/2]\<close> or \<open>[1, -2, 1]\<close>, the weighted values of
  \<^verbatim>\<open>func(x0 + (k - 1)*dx)\<close> for \<open>k = 0, 1, 2\<close> summed into \<^verbatim>\<open>val\<close> (which starts as the scalar
  0.0), and \<^verbatim>\<open>val\<close> divided by \<open>dx ^ n\<close>. Any other order is rejected.
\<close>

definition central_weights :: "nat \<Rightarrow> real list" where
  "central_weights n = (if n = 1 then [- 1 / 2, 0, 1 / 2] else [1, - 2, 1])"

definition np_add :: "real option \<Rightarrow> real option \<Rightarrow> real option" where
  "np_add u v = (case u of None \<Rightarrow> None | Some a \<Rightarrow> (case v of None \<Rightarrow> None | Some b \<Rightarrow> Some (a + b)))"

definition np_scale :: "real \<Rightarrow> real option \<Rightarrow> real option" where
  "np_scale w v = (case v of None \<Rightarrow> None | Some b \<Rightarrow> Some (w * b))"

definition np_divide :: "real option \<Rightarrow> real \<Rightarrow> real option" where
  "np_divide v d = (case v of None \<Rightarrow> None | Some b \<Rightarrow> (if d = 0 then None else Some (b / d)))"

fun derivative_loop ::
  "(real list \<Rightarrow> py_error + real option list) \<Rightarrow> real list \<Rightarrow> real \<Rightarrow> real list \<Rightarrow> int \<Rightarrow>
     real option list \<Rightarrow> py_error + real option list" where
  "derivative_loop func x0 dx [] k val = Inr val"
| "derivative_loop func x0 dx (w # ws) k val =
     (case func (map (\<lambda>x. x + of_int k * dx) x0) of
        Inl e \<Rightarrow> Inl e
      | Inr ys \<Rightarrow>
         (case np_broadcast np_add val (map (np_scale w) ys) of
            Inl e \<Rightarrow> Inl e
          | Inr val' \<Rightarrow> derivative_loop func x0 dx ws (k + 1) val'))"

definition derivative ::
  "(real list \<Rightarrow> py_error + real option list) \<Rightarrow> real list \<Rightarrow> nat \<Rightarrow> real \<Rightarrow>
     py_error + real option list" where
  "derivative func x0 n dx =
     (if n = 1 \<or> n = 2 then
        (case derivative_loop func x0 dx (central_weights n) (- 1) [Some 0] of
           Inl e \<Rightarrow> Inl e
         | Inr val \<Rightarrow> Inr (map (\<lambda>v. np_divide v (dx ^ n)) val))
      else Inl ValueError)"

text \<open>A LightGBM dataset, as far as the code reads it: its label vector.\<close>

record lgb_dataset =
  label :: "real list"

definition get_label :: "lgb_dataset \<Rightarrow> real list" where
  "get_label d = label d"

text \<open>
  \<^verbatim>\<open>
  def focal_loss_lgb(y_pred, dtrain, alpha, gamma):
      a,g = alpha, gamma
      y_true = dtrain.label
      def fl(x,t): ...
      partial_fl = lambda x: fl(x, y_true)
      grad = derivative(partial_fl, y_pred, n=1, dx=1e-6)
      hess = derivative(partial_fl, y_pred, n=2, dx=1e-6)
      return grad, hess
  \<close>
\<close>

definition focal_loss_lgb ::
  "real list \<Rightarrow> lgb_dataset \<Rightarrow> real \<Rightarrow> real \<Rightarrow> py_error + (real option list \<times> real option list)" where
  "focal_loss_lgb y_pred dtrain alpha gamma =
     (let a = alpha; g = gamma;
          y_true = label dtrain;
          partial_fl = (\<lambda>x. fl_array a g x y_true)
      in case derivative partial_fl y_pred 1 (1 / 10 ^ 6) of
           Inl e \<Rightarrow> Inl e
         | Inr grad \<Rightarrow>
            (case derivative partial_fl y_pred 2 (1 / 10 ^ 6) of
               Inl e \<Rightarrow> Inl e
             | Inr hess \<Rightarrow> Inr (grad, hess)))"

subsection \<open>The evaluation metric\<close>

text \<open>
  \<^verbatim>\<open>f1_score\<close> is scikit-learn's; it is a parameter of the model: a function of the true
  labels and the predicted labels that returns the score or raises.
\<close>

type_synonym f1_fn = "real list \<Rightarrow> int list \<Rightarrow> py_error + real"

text \<open>\<^verbatim>\<open>int(b)\<close> of a boolean.\<close>

definition int_of_bool :: "bool \<Rightarrow> int" where
  "int_of_bool b = (if b then 1 else 0)"

text \<open>
  \<^verbatim>\<open>
  def lgb_focal_f1_score(preds, lgbDataset):
      preds = sigmoid(preds)
      binary_preds = [int(p>0.5) for p in preds]
      y_true = lgbDataset.get_label()
      return 'f1', f1_score(y_true, binary_preds), True
  \<close>
\<close>

definition lgb_focal_f1_score ::
  "f1_fn \<Rightarrow> real list \<Rightarrow> lgb_dataset \<Rightarrow> py_error + (string \<times> real \<times> bool)" where
  "lgb_focal_f1_score f1_score preds lgbDataset =
     (let preds = map sigmoid preds;
          binary_preds = map (\<lambda>p. int_of_bool (1 / 2 < p)) preds;
          y_true = get_label lgbDataset
      in case f1_score y_true binary_preds of
           Inl e \<Rightarrow> Inl e
         | Inr v \<Rightarrow> Inr (''f1'', v, True))"

subsection \<open>The trial runner\<close>

text \<open>
  The search state of the notebook: the function attribute \<^verbatim>\<open>objective.i\<close> and the global
  dictionary \<^verbatim>\<open>early_stop_dict\<close>.
\<close>

record search_state =
  objective_i :: int
  early_stop_dict :: "int \<rightharpoonup> int"

text \<open>
  The boosting engine is LightGBM's \<^verbatim>\<open>lgb.cv\<close>; it is a parameter of the model. It receives the
  configuration, the \<^verbatim>\<open>num_boost_round\<close> argument, the objective \<^verbatim>\<open>fobj\<close> and the metric
  \<^verbatim>\<open>feval\<close> (the training set and \<^verbatim>\<open>nfold=3\<close>, \<^verbatim>\<open>stratified=True\<close>,
  \<^verbatim>\<open>early_stopping_rounds=20\<close> are fixed), and returns a dictionary from a metric name to its
  history, one value per boosting round kept.
\<close>

type_synonym fobj_fn = "real list \<Rightarrow> lgb_dataset \<Rightarrow> py_error + (real option list \<times> real option list)"

type_synonym feval_fn = "real list \<Rightarrow> lgb_dataset \<Rightarrow> py_error + (string \<times> real \<times> bool)"

type_synonym lgb_cv_fn = "config \<Rightarrow> pyval \<Rightarrow> fobj_fn \<Rightarrow> feval_fn \<Rightarrow> (string \<rightharpoonup> real list)"

text \<open>
  The closure \<^verbatim>\<open>focal_loss = lambda x,y: focal_loss_lgb(x, y, params['alpha'], params['gamma'])\<close>
  of \<^verbatim>\<open>objective\<close>: the two entries are looked up when the engine calls it.
\<close>

definition focal_loss :: "config \<Rightarrow> fobj_fn" where
  "focal_loss params x y =
     (case params ''alpha'' of
        None \<Rightarrow> Inl KeyError
      | Some alpha \<Rightarrow>
         (case params ''gamma'' of
            None \<Rightarrow> Inl KeyError
          | Some gamma \<Rightarrow> focal_loss_lgb x y (py_float alpha) (py_float gamma)))"

text \<open>
  The call
  \<^verbatim>\<open>lgb.cv(params, train, num_boost_round=params['num_boost_round'], fobj = focal_loss,
         feval = lgb_focal_f1_score, nfold=3, stratified=True, early_stopping_rounds=20)\<close>
  of \<^verbatim>\<open>objective\<close>, on the dictionary as it is at that point.
\<close>

definition cv_call :: "lgb_cv_fn \<Rightarrow> f1_fn \<Rightarrow> config \<Rightarrow> py_error + (string \<rightharpoonup> real list)" where
  "cv_call lgb_cv f1_score params =
     (case params ''num_boost_round'' of
        None \<Rightarrow> Inl KeyError
      | Some n \<Rightarrow> Inr (lgb_cv params n (focal_loss params) (lgb_focal_f1_score f1_score)))"

text \<open>
  \<^verbatim>\<open>
  def objective(params):
      params['num_boost_round'] = int(params['num_boost_round'])
      params['num_leaves'] = int(params['num_leaves'])
      params['verbose'] = -1
      params['seed'] = 1
      focal_loss = lambda x,y: ...
      cv_result = lgb.cv(...)
      early_stop_dict[objective.i] = len(cv_result['f1-mean'])
      score = round(cv_result['f1-mean'][-1], 4)
      objective.i+=1
      return -score
  \<close>
  The dictionary \<^verbatim>\<open>params\<close> is the caller's object and is updated in place, so the model
  returns it with the search state, also when the call ends in an exception.
\<close>

definition objective ::
  "lgb_cv_fn \<Rightarrow> f1_fn \<Rightarrow> search_state \<Rightarrow> config \<Rightarrow> config \<times> search_state \<times> (py_error + real)" where
  "objective lgb_cv f1_score st params =
     (case params ''num_boost_round'' of
        None \<Rightarrow> (params, st, Inl KeyError)
      | Some nbr \<Rightarrow>
         (let params = params(''num_boost_round'' \<mapsto> PyInt (py_int nbr)) in
          case params ''num_leaves'' of
            None \<Rightarrow> (params, st, Inl KeyError)
          | Some nl \<Rightarrow>
             (let params = params(''num_leaves'' \<mapsto> PyInt (py_int nl));
                  params = params(''verbose'' \<mapsto> PyInt (- 1));
                  params = params(''seed'' \<mapsto> PyInt 1)
              in case cv_call lgb_cv f1_score params of
                   Inl e \<Rightarrow> (params, st, Inl e)
                 | Inr cv_result \<Rightarrow>
                    (case cv_result ''f1-mean'' of
                       None \<Rightarrow> (params, st, Inl KeyError)
                     | Some f1_mean \<Rightarrow>
                        (let st = st\<lparr>early_stop_dict :=
                                     (early_stop_dict st)(objective_i st \<mapsto> int (length f1_mean))\<rparr>
                         in case f1_mean of
                              [] \<Rightarrow> (params, st, Inl IndexError)
                            | _ # _ \<Rightarrow>
                               (let score = py_round (last f1_mean) 4;
                                    st = st\<lparr>objective_i := objective_i st + 1\<rparr>
                                in (params, st, Inr (- score))))))))"

subsection \<open>The search loop\<close>

text \<open>
  \<^verbatim>\<open>
  objective.i=0
  trials = Trials()
  early_stop_dict = {}
  \<close>
\<close>

definition fresh_state :: search_state where
  "fresh_state = \<lparr>objective_i = 0, early_stop_dict = Map.empty\<rparr>"

text \<open>
  Modelled from the spec: \<^verbatim>\<open>fmin\<close> and \<^verbatim>\<open>Trials\<close> are Hyperopt's and are not among the sources.
  The spec's Search Loop drives sequential trials: for each of the budgeted iterations the
  strategy proposes a configuration and the Trial Runner scores it. The list \<open>configs\<close> is
  the sequence of configurations the strategy proposed in one run; trials are identified
  by their position in that sequence, from 0; an exception of the Trial Runner ends the run.
  The result is the final search state and the losses in trial order.
\<close>

fun run_trials ::
  "lgb_cv_fn \<Rightarrow> f1_fn \<Rightarrow> search_state \<Rightarrow> config list \<Rightarrow> py_error + (search_state \<times> real list)" where
  "run_trials lgb_cv f1_score st [] = Inr (st, [])"
| "run_trials lgb_cv f1_score st (params # rest) =
     (case objective lgb_cv f1_score st params of
        (_, st', Inl e) \<Rightarrow> Inl e
      | (_, st', Inr loss) \<Rightarrow>
         (case run_trials lgb_cv f1_score st' rest of
            Inl e \<Rightarrow> Inl e
          | Inr (st'', losses) \<Rightarrow> Inr (st'', loss # losses)))"

text \<open>
  Modelled from the spec: \<^verbatim>\<open>trials.best_trial['tid']\<close> is Hyperopt's. The spec resolves "the
  best-scoring trial's identity"; the Search Loop minimises, so it is the position of the
  least loss, the earliest one among equals. With no trial at all the lookup fails
  (Hyperopt's AllTrialsFailed).
\<close>

fun argmin_from :: "real \<Rightarrow> int \<Rightarrow> int \<Rightarrow> real list \<Rightarrow> int" where
  "argmin_from best best_tid tid [] = best_tid"
| "argmin_from best best_tid tid (l # ls) =
     (if l < best then argmin_from l tid (tid + 1) ls
      else argmin_from best best_tid (tid + 1) ls)"

definition best_trial_tid :: "real list \<Rightarrow> py_error + int" where
  "best_trial_tid losses =
     (case losses of [] \<Rightarrow> Inl AllTrialsFailed | l # ls \<Rightarrow> Inr (argmin_from l 0 1 ls))"

text \<open>
  The cell after the search, where \<^verbatim>\<open>best\<close> is the dictionary \<^verbatim>\<open>fmin\<close> returned:
  \<^verbatim>\<open>
  best['num_boost_round'] = early_stop_dict[trials.best_trial['tid']]
  best['num_leaves'] = int(best['num_leaves'])
  best['verbose'] = -1
  \<close>
\<close>

definition retrain_params :: "config \<Rightarrow> search_state \<Rightarrow> int \<Rightarrow> py_error + config" where
  "retrain_params best st tid =
     (case early_stop_dict st tid of
        None \<Rightarrow> Inl KeyError
      | Some rounds \<Rightarrow>
         (let best = best(''num_boost_round'' \<mapsto> PyInt rounds) in
          case best ''num_leaves'' of
            None \<Rightarrow> Inl KeyError
          | Some nl \<Rightarrow>
             (let best = best(''num_leaves'' \<mapsto> PyInt (py_int nl));
                  best = best(''verbose'' \<mapsto> PyInt (- 1))
              in Inr best)))"

subsection \<open>Instances of the external parameters, for evaluation on concrete inputs\<close>

text \<open>
  The usual F1 score of binary predictions against binary labels, \<open>2 tp / (2 tp + fp + fn)\<close>,
  and 0 when there is nothing to count; arrays of different lengths are rejected.
\<close>

definition example_f1 :: f1_fn where
  "example_f1 y_true y_pred =
     (if length y_true \<noteq> length y_pred then Inl ValueError
      else
        (let pairs = zip y_true y_pred;
             tp = length (filter (\<lambda>(t, p). t = 1 \<and> p = 1) pairs);
             fp = length (filter (\<lambda>(t, p). t \<noteq> 1 \<and> p = 1) pairs);
             fn = length (filter (\<lambda>(t, p). t = 1 \<and> p \<noteq> 1) pairs)
         in if 2 * tp + fp + fn = 0 then Inr 0
            else Inr (real (2 * tp) / real (2 * tp + fp + fn))))"

text \<open>
  An engine that keeps at most \<^verbatim>\<open>num_boost_round\<close> rounds of a given curve of mean F1 values,
  and returns no history when \<^verbatim>\<open>num_boost_round\<close> is not an int.
\<close>

definition example_cv :: "real list \<Rightarrow> lgb_cv_fn" where
  "example_cv curve params n fobj feval =
     (case n of
        PyInt k \<Rightarrow> [''f1-mean'' \<mapsto> take (nat k) curve]
      | PyFloat x \<Rightarrow> Map.empty)"

text \<open>A configuration as the search strategy proposes it: every value a float.\<close>

definition example_params :: config where
  "example_params =
     [''learning_rate'' \<mapsto> PyFloat (1 / 10),
      ''num_boost_round'' \<mapsto> PyFloat 3,
      ''num_leaves'' \<mapsto> PyFloat (127 / 2),
      ''alpha'' \<mapsto> PyFloat (1 / 4),
      ''gamma'' \<mapsto> PyFloat 2]"

text \<open>A second configuration, with a budget of one round.\<close>

definition example_params1 :: config where
  "example_params1 =
     [''learning_rate'' \<mapsto> PyFloat (1 / 20),
      ''num_boost_round'' \<mapsto> PyFloat 1,
      ''num_leaves'' \<mapsto> PyFloat 31,
      ''alpha'' \<mapsto> PyFloat (1 / 2),
      ''gamma'' \<mapsto> PyFloat 1]"

subsection \<open>Notions of the specification\<close>

text \<open>
  The thresholding rule of the Evaluation Metric Adapter: a probability above 0.5 gives the
  prediction 1, any other probability (0.5 itself too) gives 0.
\<close>

definition threshold_prediction :: "real \<Rightarrow> int" where
  "threshold_prediction p = (if 1 / 2 < p then 1 else 0)"

text \<open>
  The central finite differences of the Numeric Derivative Engine with step \<open>h\<close>, for a
  function whose values may be non-finite: \<open>(f(x+h) - f(x-h)) / (2h)\<close> and
  \<open>(f(x+h) - 2 f(x) + f(x-h)) / h\<^sup>2\<close>. A non-finite value at a point of the formula makes the
  difference non-finite.
\<close>

definition fd_first :: "(real \<Rightarrow> real option) \<Rightarrow> real \<Rightarrow> real \<Rightarrow> real option" where
  "fd_first f x h =
     (case f (x - h) of
        None \<Rightarrow> None
      | Some fm \<Rightarrow> (case f (x + h) of None \<Rightarrow> None | Some fp \<Rightarrow> Some ((fp - fm) / (2 * h))))"

definition fd_second :: "(real \<Rightarrow> real option) \<Rightarrow> real \<Rightarrow> real \<Rightarrow> real option" where
  "fd_second f x h =
     (case f (x - h) of
        None \<Rightarrow> None
      | Some fm \<Rightarrow>
         (case f x of
            None \<Rightarrow> None
          | Some f0 \<Rightarrow>
             (case f (x + h) of None \<Rightarrow> None | Some fp \<Rightarrow> Some ((fp - 2 * f0 + fm) / h\<^sup>2))))"

text \<open>
  The standard binary log-loss, \<open>-(t log p + (1 - t) log (1 - p))\<close> with \<open>p = sigmoid x\<close>.
\<close>

definition log_loss :: "real \<Rightarrow> real \<Rightarrow> real option" where
  "log_loss x t =
     (case np_log (sigmoid x) of
        None \<Rightarrow> None
      | Some l1 \<Rightarrow>
         (case np_log (1 - sigmoid x) of
            None \<Rightarrow> None
          | Some l0 \<Rightarrow> Some (- (t * l1 + (1 - t) * l0))))"

subsection \<open>Auxiliary notions\<close>

text \<open>The weighted sum of the three-point stencil at one point.\<close>

definition stencil :: "real list \<Rightarrow> real option \<Rightarrow> real option \<Rightarrow> real option \<Rightarrow> real option" where
  "stencil ws fm f0 fp =
     np_add (np_add (np_add (Some 0) (np_scale (ws ! 0) fm)) (np_scale (ws ! 1) f0)) (np_scale (ws ! 2) fp)"

text \<open>Whether numpy can broadcast two one-dimensional arrays of these lengths.\<close>

definition broadcastable :: "nat \<Rightarrow> nat \<Rightarrow> bool" where
  "broadcastable m n = (m = n \<or> n = 1 \<or> m = 1)"

text \<open>The invariant of the search state: the keys recorded are the counter values issued.\<close>

definition state_inv :: "search_state \<Rightarrow> bool" where
  "state_inv st = (0 \<le> objective_i st \<and> dom (early_stop_dict st) = {0..<objective_i st})"

section \<open>Properties\<close>

subsection \<open>The range of doubles and the sigmoid\<close>

lemma DBL_MAX_lt: "DBL_MAX < 2 ^ 1024"
  unfolding DBL_MAX_def by simp

lemma DBL_MAX_ge: "3 \<le> DBL_MAX"
  unfolding DBL_MAX_def by simp

lemma exp_1000: "DBL_MAX < exp (1000::real)"
proof -
  have "(5 / 2::real) \<le> exp 1"
    using exp_lower_Taylor_quadratic [of "1::real"] by simp
  then have "(5 / 2::real) ^ 1000 \<le> exp 1 ^ 1000"
    by (rule power_mono) simp
  also have "exp (1::real) ^ 1000 = exp (of_nat 1000 * 1)"
    by (simp only: exp_of_nat_mult)
  finally have a: "(5 / 2::real) ^ 1000 \<le> exp 1000" by simp
  have "(2::real) ^ 5 \<le> (5 / 2) ^ 4" by (simp add: power_divide)
  then have "((2::real) ^ 5) ^ 250 \<le> ((5 / 2) ^ 4) ^ 250"
    by (rule power_mono) simp
  then have b: "(2::real) ^ 1250 \<le> (5 / 2) ^ 1000"
    by (simp only: power_mult [symmetric]) simp
  have "(2::real) ^ 1024 \<le> 2 ^ 1250"
    by (rule power_increasing) simp_all
  with DBL_MAX_lt a b show ?thesis by linarith
qed

text \<open>The exponential of \<open>- x\<close> either overflows, and then \<open>x\<close> is negative, or is positive.\<close>

lemma np_exp_neg_cases:
  "(np_exp (- x) = None \<and> x < 0) \<or> (\<exists>e. np_exp (- x) = Some e \<and> 0 < e \<and> e = exp (- x))"
proof (cases "DBL_MAX < exp (- x)")
  case True
  then have "1 < exp (- x)" using DBL_MAX_ge by linarith
  then have "x < 0" by simp
  with True show ?thesis by (simp add: np_exp_def)
next
  case False
  then show ?thesis by (simp add: np_exp_def)
qed

lemma np_exp_overflow_iff: "(np_exp (- x) = None) = (x < - ln DBL_MAX)"
proof -
  have p: "0 < DBL_MAX" using DBL_MAX_ge by linarith
  have "(DBL_MAX < exp (- x)) = (ln DBL_MAX < - x)"
    using p by (metis exp_less_cancel_iff exp_ln)
  then show ?thesis unfolding np_exp_def by auto
qed

lemma unit_interval: "0 \<le> 1 / (1 + exp (- x :: real)) \<and> 1 / (1 + exp (- x)) \<le> 1"
proof -
  have pos: "0 < 1 + exp (- x)" by (simp add: add_pos_pos)
  then show ?thesis by (simp add: field_simps)
qed

lemma sigmoid_half: "(1 / 2 < sigmoid x) = (0 < x)"
proof -
  have pos: "0 < 1 + exp (- x)" by (simp add: add_pos_pos)
  have "(1 / 2 < 1 / (1 + exp (- x))) = (1 + exp (- x) < 2)"
    using pos by (simp add: field_simps)
  also have "\<dots> = (0 < x)" by simp
  finally show ?thesis
    using np_exp_neg_cases [of x] by (auto simp: sigmoid_def)
qed

lemma threshold_sigmoid: "threshold_prediction (sigmoid x) = (if 0 < x then 1 else 0)"
  unfolding threshold_prediction_def by (simp only: sigmoid_half)

text \<open>
  Claim C2, as the code has it. For every raw score \<open>x\<close> the standalone sigmoid and the
  probability \<open>p\<close> computed inside the focal loss lie in \<open>[0, 1]\<close>, and a value is always
  returned. The exponential is not guarded: it overflows exactly for the scores below
  \<open>- ln DBL_MAX\<close> (about \<open>-709.78\<close>), where the result is 0.
\<close>

theorem sigmoid_unit_interval:
  "0 \<le> sigmoid x \<and> sigmoid x \<le> 1 \<and> 0 \<le> fl_p x \<and> fl_p x \<le> 1
   \<and> sigmoid_exp_overflows x = (x < - ln DBL_MAX)
   \<and> fl_p_exp_overflows x = (x < - ln DBL_MAX)
   \<and> sigmoid x = (if sigmoid_exp_overflows x then 0 else 1 / (1 + exp (- x)))
   \<and> fl_p x = (if fl_p_exp_overflows x then 0 else 1 / (1 + exp (- x)))"
proof -
  have "0 \<le> sigmoid x \<and> sigmoid x \<le> 1"
    using np_exp_neg_cases [of x] unit_interval [of x] by (auto simp: sigmoid_def)
  moreover have "0 \<le> fl_p x \<and> fl_p x \<le> 1"
    using np_exp_neg_cases [of x] unit_interval [of x] by (auto simp: fl_p_def)
  moreover have "sigmoid x = (if sigmoid_exp_overflows x then 0 else 1 / (1 + exp (- x)))"
    using np_exp_neg_cases [of x] by (auto simp: sigmoid_def sigmoid_exp_overflows_def)
  moreover have "fl_p x = (if fl_p_exp_overflows x then 0 else 1 / (1 + exp (- x)))"
    using np_exp_neg_cases [of x] by (auto simp: fl_p_def fl_p_exp_overflows_def)
  ultimately show ?thesis
    by (simp add: sigmoid_exp_overflows_def fl_p_exp_overflows_def np_exp_overflow_iff)
qed

text \<open>
  Claim C2 as stated fails: at the raw score \<open>-1000\<close> the exponential evaluated by the
  sigmoid, and by the focal loss, overflows.
\<close>

theorem sigmoid_overflow_counterexample:
  "sigmoid_exp_overflows (- 1000) \<and> fl_p_exp_overflows (- 1000)"
  using exp_1000 by (simp add: sigmoid_exp_overflows_def fl_p_exp_overflows_def np_exp_def)

subsection \<open>The evaluation metric\<close>

text \<open>
  Claim C6. Whenever the F1 computation returns a value \<open>v\<close> for the labels and the
  predictions obtained by the sigmoid and the strict threshold, the adapter returns
  exactly \<open>('f1', v, True)\<close>; a probability of exactly 0.5 is predicted 0.
\<close>

theorem lgb_focal_f1_score_triple:
  assumes "f1_score (get_label d) (map (\<lambda>x. threshold_prediction (sigmoid x)) preds) = Inr v"
  shows "lgb_focal_f1_score f1_score preds d = Inr (''f1'', v, True)
         \<and> threshold_prediction (1 / 2) = 0"
  using assms
  by (simp add: lgb_focal_f1_score_def threshold_prediction_def int_of_bool_def Let_def comp_def)

theorem lgb_focal_f1_score_triple_witness:
  "lgb_focal_f1_score example_f1 [3, 0, - 2, 1] \<lparr>label = [1, 1, 0, 0]\<rparr> = Inr (''f1'', 1 / 2, True)"
proof -
  have h: "example_f1 (get_label \<lparr>label = [1, 1, 0, 0]\<rparr>)
             (map (\<lambda>x. threshold_prediction (sigmoid x)) [3, 0, - 2, 1]) = Inr (1 / 2)"
    by (simp add: example_f1_def get_label_def threshold_sigmoid)
  from lgb_focal_f1_score_triple
         [of example_f1 "\<lparr>label = [1, 1, 0, 0]\<rparr>" "[3, 0, - 2, 1]" "1 / 2", OF h]
  show ?thesis by simp
qed

subsection \<open>The trial runner\<close>

lemma round_half_even_bounds:
  "\<bar>of_int (round_half_even y) - y\<bar> \<le> 1 / 2"
proof -
  have "of_int \<lfloor>y\<rfloor> \<le> y" "y < of_int \<lfloor>y\<rfloor> + 1" by linarith+
  then show ?thesis
    unfolding round_half_even_def Let_def by (auto simp: abs_le_iff)
qed

lemma py_round_4_error: "\<bar>py_round v 4 - v\<bar> \<le> 1 / 20000"
proof -
  have "\<bar>of_int (round_half_even (v * 10 ^ 4)) - v * 10 ^ 4\<bar> \<le> 1 / 2"
    by (rule round_half_even_bounds)
  then have "\<bar>(of_int (round_half_even (v * 10 ^ 4)) - v * 10 ^ 4) / 10 ^ 4\<bar> \<le> (1 / 2) / 10 ^ 4"
    by (simp only: abs_divide) (simp add: divide_le_cancel)
  then show ?thesis
    unfolding py_round_def by (simp add: diff_divide_distrib)
qed

lemma py_round_4_grid: "py_round v 4 * 10 ^ 4 = of_int (round_half_even (v * 10 ^ 4))"
  unfolding py_round_def by simp

text \<open>\<^verbatim>\<open>objective\<close> on a configuration that has the two entries it coerces.\<close>

lemma objective_unfold:
  assumes "params ''num_boost_round'' = Some nbr" and "params ''num_leaves'' = Some nl"
  shows "objective lgb_cv f1_score st params =
     (let params' = params(''num_boost_round'' \<mapsto> PyInt (py_int nbr), ''num_leaves'' \<mapsto> PyInt (py_int nl),
            ''verbose'' \<mapsto> PyInt (- 1), ''seed'' \<mapsto> PyInt 1) in
      case lgb_cv params' (PyInt (py_int nbr)) (focal_loss params') (lgb_focal_f1_score f1_score) ''f1-mean'' of
        None \<Rightarrow> (params', st, Inl KeyError)
      | Some f1_mean \<Rightarrow>
          (if f1_mean = [] then
             (params', st\<lparr>early_stop_dict := (early_stop_dict st)(objective_i st \<mapsto> 0)\<rparr>, Inl IndexError)
           else
             (params', st\<lparr>early_stop_dict := (early_stop_dict st)(objective_i st \<mapsto> int (length f1_mean)),
                            objective_i := objective_i st + 1\<rparr>,
              Inr (- py_round (last f1_mean) 4))))"
  using assms
  by (simp add: objective_def cv_call_def Let_def split: option.splits list.splits)

text \<open>
  Claim C3. On a configuration with the two entries that are coerced, and a cross-validated
  run whose \<^verbatim>\<open>f1-mean\<close> history is not empty, \<^verbatim>\<open>objective\<close> returns the negated final mean F1
  rounded to 4 decimal digits (a multiple of \<open>10\<^sup>-\<^sup>4\<close> within half a unit of the last place of
  the value), and records the length of the history, the number of rounds the run kept,
  under the current counter value in \<^verbatim>\<open>early_stop_dict\<close>.
\<close>

theorem objective_score:
  assumes "params ''num_boost_round'' = Some nbr" and "params ''num_leaves'' = Some nl"
    and "params' = params(''num_boost_round'' \<mapsto> PyInt (py_int nbr),
                          ''num_leaves'' \<mapsto> PyInt (py_int nl),
                          ''verbose'' \<mapsto> PyInt (- 1), ''seed'' \<mapsto> PyInt 1)"
    and "cv_call lgb_cv f1_score params' = Inr cv_result"
    and "cv_result ''f1-mean'' = Some f1_mean" and "f1_mean \<noteq> []"
  shows "objective lgb_cv f1_score st params =
           (params',
            st\<lparr>early_stop_dict := (early_stop_dict st)(objective_i st \<mapsto> int (length f1_mean)),
               objective_i := objective_i st + 1\<rparr>,
            Inr (- py_round (last f1_mean) 4))
         \<and> py_round (last f1_mean) 4 * 10 ^ 4 = of_int (round_half_even (last f1_mean * 10 ^ 4))
         \<and> \<bar>py_round (last f1_mean) 4 - last f1_mean\<bar> \<le> 1 / 20000"
proof -
  have "lgb_cv params' (PyInt (py_int nbr)) (focal_loss params') (lgb_focal_f1_score f1_score) = cv_result"
    using assms(3,4) by (simp add: cv_call_def)
  then show ?thesis
    using assms(1,2,3,5,6) py_round_4_error [of "last f1_mean"] py_round_4_grid [of "last f1_mean"]
    by (simp add: objective_unfold Let_def)
qed

lemma example_round: "py_round (70663 / 100000) 4 = 7066 / 10000"
  by (simp add: py_round_def round_half_even_def Let_def)

text \<open>
  An instance: 3 rounds requested (as the float 3.0), 2 rounds kept by the engine, a final
  mean F1 of 0.70663.
\<close>

theorem objective_score_witness:
  "objective (example_cv [1 / 2, 70663 / 100000]) example_f1 fresh_state example_params =
     (example_params(''num_boost_round'' \<mapsto> PyInt 3, ''num_leaves'' \<mapsto> PyInt 63,
                     ''verbose'' \<mapsto> PyInt (- 1), ''seed'' \<mapsto> PyInt 1),
      \<lparr>objective_i = 1, early_stop_dict = [0 \<mapsto> 2]\<rparr>,
      Inr (- (7066 / 10000)))"
proof -
  let ?p' = "example_params(''num_boost_round'' \<mapsto> PyInt (py_int (PyFloat 3)),
                          ''num_leaves'' \<mapsto> PyInt (py_int (PyFloat (127 / 2))),
                          ''verbose'' \<mapsto> PyInt (- 1), ''seed'' \<mapsto> PyInt 1)"
  let ?cv = "example_cv [1 / 2, 70663 / 100000]"
  have h1: "example_params ''num_boost_round'' = Some (PyFloat 3)"
    and h2: "example_params ''num_leaves'' = Some (PyFloat (127 / 2))"
    by (simp_all add: example_params_def)
  have h4: "cv_call ?cv example_f1 ?p' = Inr [''f1-mean'' \<mapsto> [1 / 2, 70663 / 100000]]"
    by (simp add: cv_call_def example_cv_def)
  have h5: "[''f1-mean'' \<mapsto> [1 / 2, 70663 / 100000 :: real]] ''f1-mean'' = Some [1 / 2, 70663 / 100000]"
    by simp
  have h6: "[1 / 2, 70663 / 100000 :: real] \<noteq> []" by simp
  from objective_score [OF h1 h2 refl h4 h5 h6, of fresh_state]
  show ?thesis by (simp add: fresh_state_def example_round)
qed

text \<open>
  Claim C8, as the code has it. When the \<^verbatim>\<open>f1-mean\<close> history of the run is empty, \<^verbatim>\<open>objective\<close>
  returns no score: it records 0 rounds under the current counter value, and the index
  \<^verbatim>\<open>[-1]\<close> then raises IndexError, with the counter not incremented.
\<close>

theorem objective_empty_history:
  assumes "params ''num_boost_round'' = Some nbr" and "params ''num_leaves'' = Some nl"
    and "params' = params(''num_boost_round'' \<mapsto> PyInt (py_int nbr),
                          ''num_leaves'' \<mapsto> PyInt (py_int nl),
                          ''verbose'' \<mapsto> PyInt (- 1), ''seed'' \<mapsto> PyInt 1)"
    and "cv_call lgb_cv f1_score params' = Inr cv_result"
    and "cv_result ''f1-mean'' = Some []"
  shows "objective lgb_cv f1_score st params =
           (params', st\<lparr>early_stop_dict := (early_stop_dict st)(objective_i st \<mapsto> 0)\<rparr>,
            Inl IndexError)"
proof -
  have "lgb_cv params' (PyInt (py_int nbr)) (focal_loss params') (lgb_focal_f1_score f1_score) = cv_result"
    using assms(3,4) by (simp add: cv_call_def)
  then show ?thesis
    using assms(1,2,3,5) by (simp add: objective_unfold Let_def)
qed

theorem objective_empty_history_witness:
  "objective (example_cv []) example_f1 fresh_state example_params =
     (example_params(''num_boost_round'' \<mapsto> PyInt 3, ''num_leaves'' \<mapsto> PyInt 63,
                     ''verbose'' \<mapsto> PyInt (- 1), ''seed'' \<mapsto> PyInt 1),
      \<lparr>objective_i = 0, early_stop_dict = [0 \<mapsto> 0]\<rparr>,
      Inl IndexError)"
proof -
  let ?p' = "example_params(''num_boost_round'' \<mapsto> PyInt (py_int (PyFloat 3)),
                          ''num_leaves'' \<mapsto> PyInt (py_int (PyFloat (127 / 2))),
                          ''verbose'' \<mapsto> PyInt (- 1), ''seed'' \<mapsto> PyInt 1)"
  have h1: "example_params ''num_boost_round'' = Some (PyFloat 3)"
    and h2: "example_params ''num_leaves'' = Some (PyFloat (127 / 2))"
    by (simp_all add: example_params_def)
  have h4: "cv_call (example_cv []) example_f1 ?p' = Inr [''f1-mean'' \<mapsto> []]"
    by (simp add: cv_call_def example_cv_def)
  have h5: "[''f1-mean'' \<mapsto> ([] :: real list)] ''f1-mean'' = Some []"
    by simp
  from objective_empty_history [OF h1 h2 refl h4 h5, of fresh_state]
  show ?thesis by (simp add: fresh_state_def)
qed

text \<open>
  Claim C8 as stated fails: on an engine that keeps no round, the call ends in IndexError
  instead of a score.
\<close>

theorem objective_fault_counterexample:
  "snd (snd (objective (example_cv []) example_f1 fresh_state example_params)) = Inl IndexError"
proof -
  have h1: "example_params ''num_boost_round'' = Some (PyFloat 3)"
    and h2: "example_params ''num_leaves'' = Some (PyFloat (127 / 2))"
    by (simp_all add: example_params_def)
  show ?thesis
    by (simp add: objective_unfold [OF h1 h2] Let_def example_cv_def)
qed

text \<open>\<^verbatim>\<open>int\<close> of a float is the integer next to it in the direction of zero.\<close>

lemma py_int_truncates:
  "\<bar>of_int (py_int (PyFloat x)) - x\<bar> < 1 \<and> \<bar>of_int (py_int (PyFloat x)) :: real\<bar> \<le> \<bar>x\<bar>"
proof (cases "0 \<le> x")
  case True
  then have "0 \<le> \<lfloor>x\<rfloor>" by simp
  then have a: "(0::real) \<le> of_int \<lfloor>x\<rfloor>" by simp
  have b: "of_int \<lfloor>x\<rfloor> \<le> x" "x < of_int \<lfloor>x\<rfloor> + 1" by linarith+
  have "\<bar>of_int \<lfloor>x\<rfloor> - x\<bar> < 1" using b by linarith
  moreover have "\<bar>of_int \<lfloor>x\<rfloor> :: real\<bar> \<le> \<bar>x\<bar>" using a b True by linarith
  ultimately show ?thesis using True by simp
next
  case False
  then have "\<lceil>x\<rceil> \<le> 0" by (simp add: ceiling_le_iff)
  then have a: "of_int \<lceil>x\<rceil> \<le> (0::real)" by simp
  have b: "x \<le> of_int \<lceil>x\<rceil>" "of_int \<lceil>x\<rceil> < x + 1" by linarith+
  have "\<bar>of_int \<lceil>x\<rceil> - x\<bar> < 1" using b by linarith
  moreover have "\<bar>of_int \<lceil>x\<rceil> :: real\<bar> \<le> \<bar>x\<bar>" using a b False by linarith
  ultimately show ?thesis using False by simp
qed

text \<open>
  Claim C10. On a configuration with the two entries that are coerced, the dictionary after
  the call is the caller's one with \<^verbatim>\<open>num_boost_round\<close> and \<^verbatim>\<open>num_leaves\<close> replaced by their
  integer truncations (for a float, the integer next to it towards zero), \<^verbatim>\<open>verbose\<close> set
  to -1 and \<^verbatim>\<open>seed\<close> to 1, and every other entry as it was; this holds however the call
  ends. The engine sees the dictionary only in that state:
  the call is the same for any engine that answers as the given one does on it.
\<close>

theorem objective_mutates_params:
  assumes "params ''num_boost_round'' = Some nbr" and "params ''num_leaves'' = Some nl"
    and "params' = params(''num_boost_round'' \<mapsto> PyInt (py_int nbr),
                          ''num_leaves'' \<mapsto> PyInt (py_int nl),
                          ''verbose'' \<mapsto> PyInt (- 1), ''seed'' \<mapsto> PyInt 1)"
  shows "fst (objective lgb_cv f1_score st params) = params'
         \<and> params' ''num_boost_round'' = Some (PyInt (py_int nbr))
         \<and> params' ''num_leaves'' = Some (PyInt (py_int nl))
         \<and> params' ''verbose'' = Some (PyInt (- 1))
         \<and> params' ''seed'' = Some (PyInt 1)
         \<and> (k \<notin> {''num_boost_round'', ''num_leaves'', ''verbose'', ''seed''} \<longrightarrow> params' k = params k)
         \<and> \<bar>of_int (py_int (PyFloat x)) - x\<bar> < 1
         \<and> \<bar>of_int (py_int (PyFloat x)) :: real\<bar> \<le> \<bar>x\<bar>
         \<and> objective lgb_cv f1_score st params = objective (\<lambda>p. lgb_cv params') f1_score st params"
  using assms py_int_truncates [of x]
  by (simp add: objective_unfold Let_def split: option.splits)

theorem objective_mutates_params_witness:
  "fst (objective (example_cv []) example_f1 fresh_state example_params) ''num_boost_round''
     = Some (PyInt 3)
   \<and> fst (objective (example_cv []) example_f1 fresh_state example_params) ''num_leaves''
     = Some (PyInt 63)
   \<and> fst (objective (example_cv []) example_f1 fresh_state example_params) ''verbose''
     = Some (PyInt (- 1))
   \<and> fst (objective (example_cv []) example_f1 fresh_state example_params) ''seed''
     = Some (PyInt 1)
   \<and> fst (objective (example_cv []) example_f1 fresh_state example_params) ''alpha''
     = Some (PyFloat (1 / 4))
   \<and> example_params ''verbose'' = None \<and> example_params ''seed'' = None
   \<and> example_params ''num_leaves'' = Some (PyFloat (127 / 2))"
proof -
  have h1: "example_params ''num_boost_round'' = Some (PyFloat 3)"
    and h2: "example_params ''num_leaves'' = Some (PyFloat (127 / 2))"
    by (simp_all add: example_params_def)
  have "fst (objective (example_cv []) example_f1 fresh_state example_params) =
          example_params(''num_boost_round'' \<mapsto> PyInt (py_int (PyFloat 3)),
                         ''num_leaves'' \<mapsto> PyInt (py_int (PyFloat (127 / 2))),
                         ''verbose'' \<mapsto> PyInt (- 1), ''seed'' \<mapsto> PyInt 1)"
    using objective_mutates_params
            [OF h1 h2 refl, of "example_cv []" example_f1 fresh_state "''alpha''" 0]
    by (rule conjunct1)
  then show ?thesis by (simp add: example_params_def)
qed

subsection \<open>The derivative engine on the focal loss\<close>

lemma np_broadcast_same: "length xs = length ys \<Longrightarrow> np_broadcast f xs ys = Inr (map2 f xs ys)"
  by (simp add: np_broadcast_def)

lemma np_broadcast_scalar: "np_broadcast f [a] ys = Inr (map (f a) ys)"
proof (cases ys)
  case Nil
  then show ?thesis by (simp add: np_broadcast_def)
next
  case (Cons y ys')
  then show ?thesis by (cases ys') (simp_all add: np_broadcast_def)
qed

lemma derivative_loop_three:
  assumes "func (map (\<lambda>x. x + of_int (- 1) * dx) x0) = Inr fm"
    and "func (map (\<lambda>x. x + of_int 0 * dx) x0) = Inr f0"
    and "func (map (\<lambda>x. x + of_int 1 * dx) x0) = Inr fp"
    and "length fm = length f0" and "length fp = length f0"
  shows "derivative_loop func x0 dx [w0, w1, w2] (- 1) [Some 0] =
           Inr (map (\<lambda>i. stencil [w0, w1, w2] (fm ! i) (f0 ! i) (fp ! i)) [0..<length f0])"
proof -
  have 1: "np_broadcast np_add [Some 0] (map (np_scale w0) fm) = Inr (map (np_add (Some 0)) (map (np_scale w0) fm))"
    by (rule np_broadcast_scalar)
  let ?v1 = "map (np_add (Some 0)) (map (np_scale w0) fm)"
  have 2: "np_broadcast np_add ?v1 (map (np_scale w1) f0) = Inr (map2 np_add ?v1 (map (np_scale w1) f0))"
    by (rule np_broadcast_same) (simp add: assms)
  let ?v2 = "map2 np_add ?v1 (map (np_scale w1) f0)"
  have 3: "np_broadcast np_add ?v2 (map (np_scale w2) fp) = Inr (map2 np_add ?v2 (map (np_scale w2) fp))"
    by (rule np_broadcast_same) (simp add: assms)
  let ?v3 = "map2 np_add ?v2 (map (np_scale w2) fp)"
  have "derivative_loop func x0 dx [w0, w1, w2] (- 1) [Some 0] = Inr ?v3"
    using assms(1,2,3) 1 2 3 by simp
  also have "?v3 = map (\<lambda>i. stencil [w0, w1, w2] (fm ! i) (f0 ! i) (fp ! i)) [0..<length f0]"
    by (rule nth_equalityI) (simp_all add: assms stencil_def)
  finally show ?thesis .
qed

lemma np_divide_stencil_first:
  assumes "h \<noteq> 0"
  shows "np_divide (stencil (central_weights 1) (f (x + of_int (- 1) * h)) (f (x + of_int 0 * h))
            (f (x + of_int 1 * h))) (h ^ 1)
         = (if f x = None then None else fd_first f x h)"
  using assms
  by (simp add: stencil_def central_weights_def np_add_def np_scale_def np_divide_def fd_first_def
      field_simps split: option.splits)

lemma np_divide_stencil_second:
  assumes "h \<noteq> 0"
  shows "np_divide (stencil (central_weights 2) (f (x + of_int (- 1) * h)) (f (x + of_int 0 * h))
            (f (x + of_int 1 * h))) (h ^ 2)
         = fd_second f x h"
  using assms
  by (simp add: stencil_def central_weights_def np_add_def np_scale_def np_divide_def fd_second_def
      field_simps split: option.splits)

lemma np_broadcast_Inl:
  "\<not> broadcastable (length xs) (length ys) \<Longrightarrow> np_broadcast f xs ys = Inl ValueError"
  by (simp add: np_broadcast_def broadcastable_def)

lemma np_broadcast_Inr:
  assumes "broadcastable (length xs) (length ys)"
  shows "\<exists>zs. np_broadcast f xs ys = Inr zs
           \<and> length zs = (if length xs = length ys \<or> length ys = 1 then length xs else length ys)"
  using assms by (auto simp add: np_broadcast_def broadcastable_def)

lemma derivative_partial_fl_Inl:
  assumes "\<not> broadcastable (length x0) (length ts)"
  shows "derivative (\<lambda>x. fl_array a g x ts) x0 n dx = Inl ValueError"
proof -
  have "fl_array a g (map (\<lambda>x. x + of_int (- 1) * dx) x0) ts = Inl ValueError"
    unfolding fl_array_def using assms by (intro np_broadcast_Inl) simp
  then show ?thesis
    by (simp add: derivative_def central_weights_def)
qed

lemma derivative_partial_fl_Inr:
  assumes "broadcastable (length x0) (length ts)" and "n = 1 \<or> n = 2"
  shows "\<exists>zs. derivative (\<lambda>x. fl_array a g x ts) x0 n dx = Inr zs
           \<and> length zs = (if length x0 = length ts \<or> length ts = 1 then length x0 else length ts)"
proof -
  let ?L = "if length x0 = length ts \<or> length ts = 1 then length x0 else length ts"
  let ?func = "\<lambda>x. fl_array a g x ts"
  have ex: "\<exists>zs. ?func (map (\<lambda>x. x + of_int k * dx) x0) = Inr zs \<and> length zs = ?L" for k
    using assms(1) by (auto simp: fl_array_def np_broadcast_def broadcastable_def)
  obtain fm where fm: "?func (map (\<lambda>x. x + of_int (- 1) * dx) x0) = Inr fm" "length fm = ?L"
    using ex [of "- 1"] by blast
  obtain f0 where f0: "?func (map (\<lambda>x. x + of_int 0 * dx) x0) = Inr f0" "length f0 = ?L"
    using ex [of 0] by blast
  obtain fp where fp: "?func (map (\<lambda>x. x + of_int 1 * dx) x0) = Inr fp" "length fp = ?L"
    using ex [of 1] by blast
  have len: "length fm = length f0" "length fp = length f0"
    using fm(2) f0(2) fp(2) by simp_all
  define w0 w1 w2 where "w0 = central_weights n ! 0" and "w1 = central_weights n ! 1"
    and "w2 = central_weights n ! 2"
  then have w: "central_weights n = [w0, w1, w2]"
    by (simp add: central_weights_def)
  have "derivative_loop ?func x0 dx [w0, w1, w2] (- 1) [Some 0] =
          Inr (map (\<lambda>i. stencil [w0, w1, w2] (fm ! i) (f0 ! i) (fp ! i)) [0..<length f0])"
    by (rule derivative_loop_three [OF fm(1) f0(1) fp(1) len])
  then show ?thesis
    using assms(2) w f0(2) by (simp add: derivative_def)
qed

lemma derivative_partial_fl_same:
  assumes "length x0 = length ts" and "n = 1 \<or> n = 2"
  shows "derivative (\<lambda>x. fl_array a g x ts) x0 n dx =
           Inr (map2 (\<lambda>x t. np_divide (stencil (central_weights n)
                   (fl a g (x + of_int (- 1) * dx) t) (fl a g (x + of_int 0 * dx) t)
                   (fl a g (x + of_int 1 * dx) t)) (dx ^ n)) x0 ts)"
proof -
  let ?func = "\<lambda>x. fl_array a g x ts"
  let ?F = "\<lambda>k. map2 (fl a g) (map (\<lambda>x. x + of_int k * dx) x0) ts"
  have F: "?func (map (\<lambda>x. x + of_int k * dx) x0) = Inr (?F k)" for k
    unfolding fl_array_def using assms(1) by (intro np_broadcast_same) simp
  have len: "length (?F (- 1)) = length (?F 0)" "length (?F 1) = length (?F 0)"
    by simp_all
  define w0 w1 w2 where "w0 = central_weights n ! 0" and "w1 = central_weights n ! 1"
    and "w2 = central_weights n ! 2"
  then have w: "central_weights n = [w0, w1, w2]"
    by (simp add: central_weights_def)
  have "derivative_loop ?func x0 dx [w0, w1, w2] (- 1) [Some 0] =
          Inr (map (\<lambda>i. stencil [w0, w1, w2] (?F (- 1) ! i) (?F 0 ! i) (?F 1 ! i)) [0..<length (?F 0)])"
    by (rule derivative_loop_three [OF F F F len])
  then have "derivative ?func x0 n dx =
      Inr (map (\<lambda>v. np_divide v (dx ^ n))
        (map (\<lambda>i. stencil (central_weights n) (?F (- 1) ! i) (?F 0 ! i) (?F 1 ! i)) [0..<length (?F 0)]))"
    using assms(2) w by (simp add: derivative_def)
  also have "map (\<lambda>v. np_divide v (dx ^ n))
        (map (\<lambda>i. stencil (central_weights n) (?F (- 1) ! i) (?F 0 ! i) (?F 1 ! i)) [0..<length (?F 0)])
      = map2 (\<lambda>x t. np_divide (stencil (central_weights n)
                   (fl a g (x + of_int (- 1) * dx) t) (fl a g (x + of_int 0 * dx) t)
                   (fl a g (x + of_int 1 * dx) t)) (dx ^ n)) x0 ts"
    using assms(1) by (intro nth_equalityI) simp_all
  finally show ?thesis .
qed

lemma focal_loss_lgb_same:
  assumes "length y_pred = length (label d)"
  shows "focal_loss_lgb y_pred d a g =
           Inr (map2 (\<lambda>x t. if fl a g x t = None then None
                              else fd_first (\<lambda>x. fl a g x t) x (1 / 10 ^ 6)) y_pred (label d),
                map2 (\<lambda>x t. fd_second (\<lambda>x. fl a g x t) x (1 / 10 ^ 6)) y_pred (label d))"
proof -
  have h: "(1 / 10 ^ 6 :: real) \<noteq> 0" by simp
  have 1: "(\<lambda>x t. np_divide (stencil (central_weights 1)
                   (fl a g (x + of_int (- 1) * (1 / 10 ^ 6)) t) (fl a g (x + of_int 0 * (1 / 10 ^ 6)) t)
                   (fl a g (x + of_int 1 * (1 / 10 ^ 6)) t)) ((1 / 10 ^ 6) ^ 1))
      = (\<lambda>x t. if fl a g x t = None then None else fd_first (\<lambda>x. fl a g x t) x (1 / 10 ^ 6))"
    by (intro ext) (rule np_divide_stencil_first [OF h, of "\<lambda>x. fl a g x _"])
  have 2: "(\<lambda>x t. np_divide (stencil (central_weights 2)
                   (fl a g (x + of_int (- 1) * (1 / 10 ^ 6)) t) (fl a g (x + of_int 0 * (1 / 10 ^ 6)) t)
                   (fl a g (x + of_int 1 * (1 / 10 ^ 6)) t)) ((1 / 10 ^ 6) ^ 2))
      = (\<lambda>x t. fd_second (\<lambda>x. fl a g x t) x (1 / 10 ^ 6))"
    by (intro ext) (rule np_divide_stencil_second [OF h, of "\<lambda>x. fl a g x _"])
  show ?thesis
    unfolding focal_loss_lgb_def Let_def
    by (simp only: derivative_partial_fl_same [OF assms] 1 2 sum.case simp_thms)
qed

lemma fl_p_cases:
  "(fl_p_exp_overflows x \<and> fl_p x = 0 \<and> x < - ln DBL_MAX)
   \<or> (\<not> fl_p_exp_overflows x \<and> fl_p x = 1 / (1 + exp (- x)) \<and> 0 < fl_p x \<and> fl_p x < 1
        \<and> \<not> x < - ln DBL_MAX)"
proof -
  have pos: "0 < 1 + exp (- x)" by (simp add: add_pos_pos)
  have "0 < 1 / (1 + exp (- x)) \<and> 1 / (1 + exp (- x)) < 1"
    using pos by (simp add: field_simps)
  then show ?thesis
    using np_exp_overflow_iff [of x] np_exp_neg_cases [of x]
    by (auto simp: fl_p_def fl_p_exp_overflows_def)
qed

lemma fl_p_eq_sigmoid: "fl_p x = sigmoid x"
  by (simp add: fl_p_def sigmoid_def)

text \<open>With a binary label the loss is non-finite exactly where the exponential overflows.\<close>

lemma fl_binary_None_iff:
  assumes "t = 0 \<or> t = 1"
  shows "(fl a g x t = None) = (x < - ln DBL_MAX)"
  using assms fl_p_cases [of x]
  by (auto simp: fl_def Let_def np_log_def np_power_def split: option.splits if_splits)

lemma fl_binary_None_mono:
  assumes "t = 0 \<or> t = 1" and "fl a g x t = None" and "0 \<le> h"
  shows "fl a g (x - h) t = None"
  using assms by (simp add: fl_binary_None_iff)

lemma fd_first_binary:
  assumes "t = 0 \<or> t = 1" and "0 \<le> h"
  shows "(if fl a g x t = None then None else fd_first (\<lambda>x. fl a g x t) x h)
           = fd_first (\<lambda>x. fl a g x t) x h"
  using fl_binary_None_mono [OF assms(1) _ assms(2), of a g x]
  by (simp add: fd_first_def)

text \<open>
  Claim C1. For score and label arrays of equal length, \<^verbatim>\<open>focal_loss_lgb\<close> returns a pair of
  arrays of that length. The \<open>i\<close>-th entry of the second is the central second difference of
  the focal loss in the raw score at \<open>y_pred[i]\<close>, with the label \<open>y_true[i]\<close>, \<open>alpha\<close> and
  \<open>gamma\<close> fixed and the step \<open>10\<^sup>-\<^sup>6\<close>. The \<open>i\<close>-th entry of the first is the central first
  difference; the weighted sum the library forms also has the term \<open>0 \<cdot> f(x)\<close>, so the entry
  is non-finite when the loss at \<open>x\<close> itself is, which for a label in \<open>{0, 1}\<close> is already the
  case of the formula. Each entry depends on its own sample only.
\<close>

theorem focal_loss_lgb_central_differences:
  assumes "length y_pred = length (label dtrain)"
  shows "\<exists>grad hess.
           focal_loss_lgb y_pred dtrain alpha gamma = Inr (grad, hess)
           \<and> length grad = length y_pred \<and> length hess = length y_pred
           \<and> (\<forall>i < length y_pred.
                hess ! i = fd_second (\<lambda>x. fl alpha gamma x (label dtrain ! i)) (y_pred ! i) (1 / 10 ^ 6)
                \<and> grad ! i =
                    (if fl alpha gamma (y_pred ! i) (label dtrain ! i) = None then None
                     else fd_first (\<lambda>x. fl alpha gamma x (label dtrain ! i)) (y_pred ! i) (1 / 10 ^ 6))
                \<and> (label dtrain ! i \<in> {0, 1} \<longrightarrow>
                     grad ! i = fd_first (\<lambda>x. fl alpha gamma x (label dtrain ! i)) (y_pred ! i) (1 / 10 ^ 6)))"
proof -
  let ?h = "1 / 10 ^ 6 :: real"
  let ?grad = "map2 (\<lambda>x t. if fl alpha gamma x t = None then None
                              else fd_first (\<lambda>x. fl alpha gamma x t) x ?h) y_pred (label dtrain)"
  let ?hess = "map2 (\<lambda>x t. fd_second (\<lambda>x. fl alpha gamma x t) x ?h) y_pred (label dtrain)"
  have eq: "focal_loss_lgb y_pred dtrain alpha gamma = Inr (?grad, ?hess)"
    by (rule focal_loss_lgb_same [OF assms])
  have len: "length ?grad = length y_pred" "length ?hess = length y_pred"
    using assms by simp_all
  have pt: "hess_i = fd_second (\<lambda>x. fl alpha gamma x (label dtrain ! i)) (y_pred ! i) ?h
            \<and> grad_i = (if fl alpha gamma (y_pred ! i) (label dtrain ! i) = None then None
                     else fd_first (\<lambda>x. fl alpha gamma x (label dtrain ! i)) (y_pred ! i) ?h)
            \<and> (label dtrain ! i \<in> {0, 1} \<longrightarrow>
                 grad_i = fd_first (\<lambda>x. fl alpha gamma x (label dtrain ! i)) (y_pred ! i) ?h)"
    if "i < length y_pred" and "grad_i = ?grad ! i" and "hess_i = ?hess ! i" for i grad_i hess_i
  proof -
    have g: "grad_i = (if fl alpha gamma (y_pred ! i) (label dtrain ! i) = None then None
                     else fd_first (\<lambda>x. fl alpha gamma x (label dtrain ! i)) (y_pred ! i) ?h)"
      using that assms by simp
    have h: "hess_i = fd_second (\<lambda>x. fl alpha gamma x (label dtrain ! i)) (y_pred ! i) ?h"
      using that assms by simp
    have "grad_i = fd_first (\<lambda>x. fl alpha gamma x (label dtrain ! i)) (y_pred ! i) ?h"
      if "label dtrain ! i \<in> {0, 1}"
    proof -
      have "label dtrain ! i = 0 \<or> label dtrain ! i = 1" using that by simp
      from fd_first_binary [OF this, of ?h alpha gamma "y_pred ! i"] g show ?thesis by simp
    qed
    with g h show ?thesis by blast
  qed
  show ?thesis
    using eq len pt by blast
qed

theorem focal_loss_lgb_central_differences_witness:
  "\<exists>grad hess.
     focal_loss_lgb [0, 3] \<lparr>label = [1, 0]\<rparr> (1 / 4) 2 = Inr (grad, hess)
     \<and> length grad = 2 \<and> length hess = 2
     \<and> grad ! 0 = fd_first (\<lambda>x. fl (1 / 4) 2 x 1) 0 (1 / 10 ^ 6)
     \<and> hess ! 0 = fd_second (\<lambda>x. fl (1 / 4) 2 x 1) 0 (1 / 10 ^ 6)
     \<and> grad ! 1 = fd_first (\<lambda>x. fl (1 / 4) 2 x 0) 3 (1 / 10 ^ 6)
     \<and> hess ! 1 = fd_second (\<lambda>x. fl (1 / 4) 2 x 0) 3 (1 / 10 ^ 6)"
proof -
  have h: "length [0, 3 :: real] = length (label \<lparr>label = [1, 0]\<rparr>)" by simp
  from focal_loss_lgb_central_differences [OF h, of "1 / 4" 2]
  obtain grad hess where
    r: "focal_loss_lgb [0, 3] \<lparr>label = [1, 0]\<rparr> (1 / 4) 2 = Inr (grad, hess)"
      "length grad = length [0, 3 :: real]" "length hess = length [0, 3 :: real]"
    and a: "\<forall>i < length [0, 3 :: real].
        hess ! i = fd_second (\<lambda>x. fl (1 / 4) 2 x (label \<lparr>label = [1, 0]\<rparr> ! i)) ([0, 3] ! i) (1 / 10 ^ 6)
        \<and> grad ! i =
            (if fl (1 / 4) 2 ([0, 3] ! i) (label \<lparr>label = [1, 0]\<rparr> ! i) = None then None
             else fd_first (\<lambda>x. fl (1 / 4) 2 x (label \<lparr>label = [1, 0]\<rparr> ! i)) ([0, 3] ! i) (1 / 10 ^ 6))
        \<and> (label \<lparr>label = [1, 0]\<rparr> ! i \<in> {0, 1} \<longrightarrow>
             grad ! i = fd_first (\<lambda>x. fl (1 / 4) 2 x (label \<lparr>label = [1, 0]\<rparr> ! i)) ([0, 3] ! i) (1 / 10 ^ 6))"
    by blast
  have i0: "(0::nat) < length [0, 3 :: real]" and i1: "(1::nat) < length [0, 3 :: real]"
    by simp_all
  note c0 = a [rule_format, OF i0] and c1 = a [rule_format, OF i1]
  have "label \<lparr>label = [1, 0]\<rparr> ! 0 \<in> {0, 1}" by simp
  with c0 have "grad ! 0 = fd_first (\<lambda>x. fl (1 / 4) 2 x (label \<lparr>label = [1, 0]\<rparr> ! 0)) ([0, 3] ! 0) (1 / 10 ^ 6)"
    by blast
  then have g0: "grad ! 0 = fd_first (\<lambda>x. fl (1 / 4) 2 x 1) 0 (1 / 10 ^ 6)" by simp
  have "label \<lparr>label = [1, 0]\<rparr> ! 1 \<in> {0, 1}" by simp
  with c1 have "grad ! 1 = fd_first (\<lambda>x. fl (1 / 4) 2 x (label \<lparr>label = [1, 0]\<rparr> ! 1)) ([0, 3] ! 1) (1 / 10 ^ 6)"
    by blast
  then have g1: "grad ! 1 = fd_first (\<lambda>x. fl (1 / 4) 2 x 0) 3 (1 / 10 ^ 6)" by simp
  from c0 have h0: "hess ! 0 = fd_second (\<lambda>x. fl (1 / 4) 2 x 1) 0 (1 / 10 ^ 6)" by simp
  from c1 have h1: "hess ! 1 = fd_second (\<lambda>x. fl (1 / 4) 2 x 0) 3 (1 / 10 ^ 6)" by simp
  from r g0 g1 h0 h1 show ?thesis by simp
qed

text \<open>No overflow for a raw score above -1.\<close>

lemma no_overflow: "- 1 \<le> x \<Longrightarrow> \<not> fl_p_exp_overflows x"
proof -
  assume "- 1 \<le> x"
  then have "exp (- x) \<le> exp 1" by simp
  also have "exp (1::real) \<le> 3" by (rule exp_le)
  finally show ?thesis
    using DBL_MAX_ge by (simp add: fl_p_exp_overflows_def np_exp_def)
qed

text \<open>With a whole positive exponent the loss is finite wherever the exponential is.\<close>

lemma fl_finite:
  assumes "\<not> fl_p_exp_overflows x" and "0 < g" and "g = of_int \<lfloor>g\<rfloor>"
  shows "fl a g x t \<noteq> None"
  using assms fl_p_cases [of x]
  by (auto simp: fl_def Let_def np_log_def np_power_def split: option.splits)

text \<open>
  Claim C7, as the code has it. \<^verbatim>\<open>focal_loss_lgb\<close> does not look at the label values. Whatever
  they are, it returns a gradient and a Hessian array when the score and label arrays can
  be broadcast (equal lengths, or one of length 1), and the only exception it raises is
  numpy's ValueError for arrays that cannot.
\<close>

theorem focal_loss_lgb_no_label_check:
  "(broadcastable (length y_pred) (length (label dtrain)) \<longrightarrow>
      (\<exists>grad hess. focal_loss_lgb y_pred dtrain alpha gamma = Inr (grad, hess)
         \<and> length grad = length hess
         \<and> length hess = (if length y_pred = length (label dtrain) \<or> length (label dtrain) = 1
                           then length y_pred else length (label dtrain))))
   \<and> (\<not> broadcastable (length y_pred) (length (label dtrain)) \<longrightarrow>
        focal_loss_lgb y_pred dtrain alpha gamma = Inl ValueError)"
proof (cases "broadcastable (length y_pred) (length (label dtrain))")
  case True
  from derivative_partial_fl_Inr [OF True, of 1 alpha gamma "1 / 10 ^ 6"]
       derivative_partial_fl_Inr [OF True, of 2 alpha gamma "1 / 10 ^ 6"]
  show ?thesis using True
    by (auto simp: focal_loss_lgb_def Let_def)
next
  case False
  from derivative_partial_fl_Inl [OF False, of alpha gamma 1 "1 / 10 ^ 6"]
  show ?thesis using False
    by (simp add: focal_loss_lgb_def Let_def)
qed

theorem focal_loss_lgb_no_label_check_witness:
  "broadcastable (length [0 :: real]) (length (label \<lparr>label = [2]\<rparr>))
   \<and> (\<exists>grad hess. focal_loss_lgb [0] \<lparr>label = [2]\<rparr> (1 / 4) 2 = Inr (grad, hess)
         \<and> length grad = 1 \<and> length hess = 1)
   \<and> \<not> broadcastable (length [0, 1 :: real]) (length (label \<lparr>label = [1, 0, 1]\<rparr>))
   \<and> focal_loss_lgb [0, 1] \<lparr>label = [1, 0, 1]\<rparr> (1 / 4) 2 = Inl ValueError"
proof -
  have b1: "broadcastable (length [0 :: real]) (length (label \<lparr>label = [2]\<rparr>))"
    by (simp add: broadcastable_def)
  have b2: "\<not> broadcastable (length [0, 1 :: real]) (length (label \<lparr>label = [1, 0, 1]\<rparr>))"
    by (simp add: broadcastable_def)
  from focal_loss_lgb_no_label_check [of "[0]" "\<lparr>label = [2]\<rparr>" "1 / 4" 2]
       focal_loss_lgb_no_label_check [of "[0, 1]" "\<lparr>label = [1, 0, 1]\<rparr>" "1 / 4" 2] b1 b2
  show ?thesis by auto
qed

text \<open>
  Claim C7 as stated fails: for the batch with the single score 0 and the single label 2,
  the gradient and the Hessian are computed, and both are finite numbers.
\<close>

theorem focal_loss_lgb_invalid_label_counterexample:
  "focal_loss_lgb [0] \<lparr>label = [2]\<rparr> (1 / 4) 2 =
     Inr ([fd_first (\<lambda>x. fl (1 / 4) 2 x 2) 0 (1 / 10 ^ 6)],
          [fd_second (\<lambda>x. fl (1 / 4) 2 x 2) 0 (1 / 10 ^ 6)])
   \<and> fd_first (\<lambda>x. fl (1 / 4) 2 x 2) 0 (1 / 10 ^ 6) \<noteq> None
   \<and> fd_second (\<lambda>x. fl (1 / 4) 2 x 2) 0 (1 / 10 ^ 6) \<noteq> None"
proof -
  have fin: "fl (1 / 4) 2 x 2 \<noteq> None" if "- 1 \<le> x" for x
    by (rule fl_finite [OF no_overflow [OF that]]) simp_all
  have f0: "fl (1 / 4) 2 0 2 \<noteq> None" and fm: "fl (1 / 4) 2 (0 - 1 / 10 ^ 6) 2 \<noteq> None"
    and fp: "fl (1 / 4) 2 (0 + 1 / 10 ^ 6) 2 \<noteq> None"
    by (rule fin, simp)+
  have "length [0 :: real] = length (label \<lparr>label = [2]\<rparr>)" by simp
  from focal_loss_lgb_same [OF this, of "1 / 4" 2] f0
  have "focal_loss_lgb [0] \<lparr>label = [2]\<rparr> (1 / 4) 2 =
     Inr ([fd_first (\<lambda>x. fl (1 / 4) 2 x 2) 0 (1 / 10 ^ 6)],
          [fd_second (\<lambda>x. fl (1 / 4) 2 x 2) 0 (1 / 10 ^ 6)])"
    by simp
  moreover have "fd_first (\<lambda>x. fl (1 / 4) 2 x 2) 0 (1 / 10 ^ 6) \<noteq> None"
    using fm fp unfolding fd_first_def by (auto split: option.splits)
  moreover have "fd_second (\<lambda>x. fl (1 / 4) 2 x 2) 0 (1 / 10 ^ 6) \<noteq> None"
    using fm f0 fp unfolding fd_second_def by (auto split: option.splits)
  ultimately show ?thesis by blast
qed

lemma fl_half_zero: "fl (1 / 2) 0 x t = np_scale (1 / 2) (log_loss x t)"
  by (simp add: fl_def log_loss_def Let_def np_power_def np_scale_def fl_p_eq_sigmoid
      field_simps split: option.splits)

lemma fd_first_scale: "fd_first (\<lambda>x. np_scale c (f x)) x h = np_scale c (fd_first f x h)"
  by (simp add: fd_first_def np_scale_def field_simps split: option.splits)

lemma fd_second_scale: "fd_second (\<lambda>x. np_scale c (f x)) x h = np_scale c (fd_second f x h)"
  by (simp add: fd_second_def np_scale_def field_simps split: option.splits)

lemma np_scale_None: "(np_scale c v = None) = (v = None)"
  by (simp add: np_scale_def split: option.splits)

subsection \<open>The focal loss with \<open>alpha = 0.5\<close> and \<open>gamma = 0\<close>\<close>

lemma ln_DBL_MAX_lt: "ln DBL_MAX < 1000"
proof -
  have p: "0 < DBL_MAX" using DBL_MAX_ge by linarith
  have "ln DBL_MAX < ln (exp 1000)"
    using p exp_1000 by (simp only: ln_less_cancel_iff exp_gt_zero)
  then show ?thesis by simp
qed

lemma log_loss_overflow:
  assumes "x < - ln DBL_MAX"
  shows "log_loss x t = None"
proof -
  have "np_exp (- x) = None" using assms by (simp add: np_exp_overflow_iff)
  then have "sigmoid x = 0" by (simp add: sigmoid_def)
  then show ?thesis by (simp add: log_loss_def np_log_def)
qed

lemma half_differences_overflow:
  assumes "x < - ln DBL_MAX"
  shows "np_scale (1 / 2) (if log_loss x t = None then None
                           else fd_first (\<lambda>x. log_loss x t) x (1 / 10 ^ 6)) = None"
    and "np_scale (1 / 2) (fd_second (\<lambda>x. log_loss x t) x (1 / 10 ^ 6)) = None"
proof -
  have "x - 1 / 10 ^ 6 < - ln DBL_MAX" using assms by simp
  then have m: "log_loss (x - 1 / 10 ^ 6) t = None" by (rule log_loss_overflow)
  show "np_scale (1 / 2) (if log_loss x t = None then None
                           else fd_first (\<lambda>x. log_loss x t) x (1 / 10 ^ 6)) = None"
    using log_loss_overflow [OF assms, of t] by (simp add: np_scale_def)
  show "np_scale (1 / 2) (fd_second (\<lambda>x. log_loss x t) x (1 / 10 ^ 6)) = None"
    using m by (simp add: fd_second_def np_scale_def)
qed

text \<open>
  Claim C9, as the code has it. With \<open>alpha = 0.5\<close> and \<open>gamma = 0\<close> the focal loss is half the
  binary log-loss, for every raw score and every label (the labels 0 and 1 among them). The
  gradient and Hessian that \<^verbatim>\<open>focal_loss_lgb\<close> returns are then, entry by entry, half the
  central differences with step \<open>10\<^sup>-\<^sup>6\<close> of the log-loss. For a raw score below
  \<open>- ln DBL_MAX\<close> both entries are non-finite. How far a central difference is from the
  derivative of the log-loss is not part of the statement.
\<close>

theorem focal_loss_reduces_to_log_loss:
  "fl (1 / 2) 0 x t = np_scale (1 / 2) (log_loss x t)
   \<and> (length y_pred = length (label dtrain) \<longrightarrow>
        (\<exists>grad hess.
           focal_loss_lgb y_pred dtrain (1 / 2) 0 = Inr (grad, hess)
           \<and> grad = map2 (\<lambda>x t. np_scale (1 / 2)
                       (if log_loss x t = None then None
                        else fd_first (\<lambda>x. log_loss x t) x (1 / 10 ^ 6))) y_pred (label dtrain)
           \<and> hess = map2 (\<lambda>x t. np_scale (1 / 2) (fd_second (\<lambda>x. log_loss x t) x (1 / 10 ^ 6)))
                      y_pred (label dtrain)
           \<and> (\<forall>i<length y_pred.
                 y_pred ! i < - ln DBL_MAX \<longrightarrow> grad ! i = None \<and> hess ! i = None)))"
proof -
  let ?grad = "map2 (\<lambda>x t. np_scale (1 / 2)
                       (if log_loss x t = None then None
                        else fd_first (\<lambda>x. log_loss x t) x (1 / 10 ^ 6))) y_pred (label dtrain)"
  let ?hess = "map2 (\<lambda>x t. np_scale (1 / 2) (fd_second (\<lambda>x. log_loss x t) x (1 / 10 ^ 6)))
                      y_pred (label dtrain)"
  have 1: "(\<lambda>x t. if fl (1 / 2) 0 x t = None then None
                  else fd_first (\<lambda>x. fl (1 / 2) 0 x t) x (1 / 10 ^ 6))
         = (\<lambda>x t. np_scale (1 / 2)
                       (if log_loss x t = None then None
                        else fd_first (\<lambda>x. log_loss x t) x (1 / 10 ^ 6)))"
    by (intro ext) (simp add: fl_half_zero fd_first_scale np_scale_None, simp add: np_scale_def)
  have 2: "(\<lambda>x t. fd_second (\<lambda>x. fl (1 / 2) 0 x t) x (1 / 10 ^ 6))
         = (\<lambda>x t. np_scale (1 / 2) (fd_second (\<lambda>x. log_loss x t) x (1 / 10 ^ 6)))"
    by (intro ext) (simp add: fl_half_zero fd_second_scale)
  have part2: "focal_loss_lgb y_pred dtrain (1 / 2) 0 = Inr (?grad, ?hess)
      \<and> (\<forall>i<length y_pred.
            y_pred ! i < - ln DBL_MAX \<longrightarrow> ?grad ! i = None \<and> ?hess ! i = None)"
    if len: "length y_pred = length (label dtrain)"
  proof -
    have eq: "focal_loss_lgb y_pred dtrain (1 / 2) 0 = Inr (?grad, ?hess)"
      using focal_loss_lgb_same [OF len, of "1 / 2" 0] by (simp only: 1 2)
    have "?grad ! i = None \<and> ?hess ! i = None"
      if i: "i < length y_pred" and o: "y_pred ! i < - ln DBL_MAX" for i
      using half_differences_overflow [OF o, of "label dtrain ! i"] i len by simp
    with eq show ?thesis by blast
  qed
  show ?thesis
    using fl_half_zero [of x t] part2 by blast
qed

theorem focal_loss_reduces_to_log_loss_witness:
  "fl (1 / 2) 0 3 1 = np_scale (1 / 2) (log_loss 3 1)
   \<and> (\<exists>grad hess.
         focal_loss_lgb [3, - 1000] \<lparr>label = [1, 0]\<rparr> (1 / 2) 0 = Inr (grad, hess)
         \<and> length grad = 2 \<and> length hess = 2
         \<and> grad ! 0 = np_scale (1 / 2) (if log_loss 3 1 = None then None
                                         else fd_first (\<lambda>x. log_loss x 1) 3 (1 / 10 ^ 6))
         \<and> hess ! 0 = np_scale (1 / 2) (fd_second (\<lambda>x. log_loss x 1) 3 (1 / 10 ^ 6))
         \<and> grad ! 1 = None \<and> hess ! 1 = None)"
proof -
  have len: "length [3, - 1000 :: real] = length (label \<lparr>label = [1, 0]\<rparr>)" by simp
  have i: "(1::nat) < length [3, - 1000 :: real]" by simp
  have o: "[3, - 1000 :: real] ! 1 < - ln DBL_MAX" using ln_DBL_MAX_lt by simp
  note inst = focal_loss_reduces_to_log_loss [of 3 1 "[3, - 1000]" "\<lparr>label = [1, 0]\<rparr>"]
  from inst have a: "fl (1 / 2) 0 3 1 = np_scale (1 / 2) (log_loss 3 1)"
    by (rule conjunct1)
  from inst [THEN conjunct2, rule_format, OF len] obtain grad hess where
    r: "focal_loss_lgb [3, - 1000] \<lparr>label = [1, 0]\<rparr> (1 / 2) 0 = Inr (grad, hess)"
    and g: "grad = map2 (\<lambda>x t. np_scale (1 / 2)
                       (if log_loss x t = None then None
                        else fd_first (\<lambda>x. log_loss x t) x (1 / 10 ^ 6)))
                   [3, - 1000] (label \<lparr>label = [1, 0]\<rparr>)"
    and h: "hess = map2 (\<lambda>x t. np_scale (1 / 2) (fd_second (\<lambda>x. log_loss x t) x (1 / 10 ^ 6)))
                      [3, - 1000] (label \<lparr>label = [1, 0]\<rparr>)"
    and e: "\<forall>i<length [3, - 1000 :: real].
              [3, - 1000] ! i < - ln DBL_MAX \<longrightarrow> grad ! i = None \<and> hess ! i = None"
    by blast
  from e [rule_format, OF i o] have n: "grad ! 1 = None" "hess ! 1 = None" by simp_all
  from g have lg: "length grad = 2" by simp
  from h have lh: "length hess = 2" by simp
  from g have g0: "grad ! 0 = np_scale (1 / 2) (if log_loss 3 1 = None then None
                                      else fd_first (\<lambda>x. log_loss x 1) 3 (1 / 10 ^ 6))"
    by simp
  from h have h0: "hess ! 0 = np_scale (1 / 2) (fd_second (\<lambda>x. log_loss x 1) 3 (1 / 10 ^ 6))"
    by simp
  from a r lg lh g0 h0 n show ?thesis by blast
qed

text \<open>
  Claim C9 as stated fails: at the raw score \<open>-1000\<close> with the label 1 the exponential
  overflows, the loss is \<^verbatim>\<open>inf\<close> at the three points of the stencil, and the gradient and the
  Hessian returned are \<^verbatim>\<open>nan\<close>, whereas half the gradient \<open>p - t\<close> of the log-loss is \<open>-1/2\<close>
  and half its Hessian \<open>p (1 - p)\<close> is 0 there.
\<close>

theorem focal_loss_log_loss_gradient_counterexample:
  "focal_loss_lgb [- 1000] \<lparr>label = [1]\<rparr> (1 / 2) 0 = Inr ([None], [None])
   \<and> 1 / 2 * (sigmoid (- 1000) - 1) = - 1 / 2
   \<and> 1 / 2 * (sigmoid (- 1000) * (1 - sigmoid (- 1000))) = 0"
proof -
  have o: "(- 1000 :: real) < - ln DBL_MAX" using ln_DBL_MAX_lt by simp
  have o': "(- 1000 - 1 / 10 ^ 6 :: real) < - ln DBL_MAX" using ln_DBL_MAX_lt by simp
  have b: "(1::real) = 0 \<or> (1::real) = 1" by simp
  have f0: "fl (1 / 2) 0 (- 1000) 1 = None"
    using o by (simp only: fl_binary_None_iff [OF b])
  have fm: "fl (1 / 2) 0 (- 1000 - 1 / 10 ^ 6) 1 = None"
    using o' by (simp only: fl_binary_None_iff [OF b])
  have s: "sigmoid (- 1000) = 0"
    using exp_1000 by (simp add: sigmoid_def np_exp_def)
  have "length [- 1000 :: real] = length (label \<lparr>label = [1]\<rparr>)" by simp
  from focal_loss_lgb_same [OF this, of "1 / 2" 0] f0 fm
  have "focal_loss_lgb [- 1000] \<lparr>label = [1]\<rparr> (1 / 2) 0 = Inr ([None], [None])"
    by (simp add: fd_second_def)
  with s show ?thesis by simp
qed

subsection \<open>The search state over a run\<close>

lemma objective_step:
  assumes "objective lgb_cv f1_score st params = (params', st', Inr loss)"
  shows "\<exists>rounds. early_stop_dict st' = (early_stop_dict st)(objective_i st \<mapsto> rounds)
           \<and> objective_i st' = objective_i st + 1"
  using assms
  by (auto simp: objective_def Let_def split: option.splits sum.splits list.splits)

lemma run_trials_append:
  "run_trials lgb_cv f1_score st (xs @ ys) =
     (case run_trials lgb_cv f1_score st xs of
        Inl e \<Rightarrow> Inl e
      | Inr (st1, l1) \<Rightarrow>
         (case run_trials lgb_cv f1_score st1 ys of
            Inl e \<Rightarrow> Inl e
          | Inr (st2, l2) \<Rightarrow> Inr (st2, l1 @ l2)))"
  by (induction xs arbitrary: st) (auto split: prod.splits sum.splits)

lemma run_trials_inv:
  assumes "run_trials lgb_cv f1_score st configs = Inr (st', losses)" and "state_inv st"
  shows "state_inv st' \<and> objective_i st' = objective_i st + int (length configs)
         \<and> length losses = length configs
         \<and> early_stop_dict st \<subseteq>\<^sub>m early_stop_dict st'"
  using assms
proof (induction configs arbitrary: st losses)
  case Nil
  then show ?case by simp
next
  case (Cons params rest)
  from Cons.prems(1) obtain p1 st1 loss ls where
    o: "objective lgb_cv f1_score st params = (p1, st1, Inr loss)"
    and r: "run_trials lgb_cv f1_score st1 rest = Inr (st', ls)" and l: "losses = loss # ls"
    by (auto split: prod.splits sum.splits)
  from objective_step [OF o] obtain rounds where
    s: "early_stop_dict st1 = (early_stop_dict st)(objective_i st \<mapsto> rounds)"
       "objective_i st1 = objective_i st + 1"
    by blast
  have inv1: "state_inv st1"
    using Cons.prems(2) s by (auto simp: state_inv_def)
  have le1: "early_stop_dict st \<subseteq>\<^sub>m early_stop_dict st1"
    using Cons.prems(2) s by (auto simp: state_inv_def map_le_def)
  from Cons.IH [OF r inv1] have ih: "state_inv st'"
    "objective_i st' = objective_i st1 + int (length rest)" "length ls = length rest"
    "early_stop_dict st1 \<subseteq>\<^sub>m early_stop_dict st'"
    by simp_all
  have "early_stop_dict st \<subseteq>\<^sub>m early_stop_dict st'"
    by (rule map_le_trans [OF le1 ih(4)])
  with ih s(2) l show ?case by simp
qed

lemma run_trials_length:
  "run_trials lgb_cv f1_score st configs = Inr (st', losses) \<Longrightarrow> length losses = length configs"
  by (induction configs arbitrary: st losses) (auto split: prod.splits sum.splits)

lemma fresh_state_inv: "state_inv fresh_state"
  by (simp add: state_inv_def fresh_state_def)

lemma run_trials_prefix:
  assumes "run_trials lgb_cv f1_score st configs = Inr (st', losses)" and "k \<le> length configs"
  shows "\<exists>st_k losses_k. run_trials lgb_cv f1_score st (take k configs) = Inr (st_k, losses_k)
           \<and> run_trials lgb_cv f1_score st_k (drop k configs) = Inr (st', drop k losses)
           \<and> losses_k = take k losses"
proof -
  have "run_trials lgb_cv f1_score st (take k configs @ drop k configs) = Inr (st', losses)"
    using assms(1) by simp
  then obtain st_k l1 l2 where
    a: "run_trials lgb_cv f1_score st (take k configs) = Inr (st_k, l1)"
    and b: "run_trials lgb_cv f1_score st_k (drop k configs) = Inr (st', l2)"
    and c: "losses = l1 @ l2"
    unfolding run_trials_append by (auto split: prod.splits sum.splits)
  have "length l1 = k"
    using run_trials_length [OF a] assms(2) by simp
  with a b c show ?thesis by simp
qed

lemma argmin_from_min:
  assumes "0 \<le> bt" and "nat bt < length pre" and "b = pre ! nat bt"
    and "\<forall>x\<in>set pre. b \<le> x" and "t = int (length pre)"
  shows "0 \<le> argmin_from b bt t ls \<and> nat (argmin_from b bt t ls) < length (pre @ ls)
         \<and> (\<forall>x\<in>set (pre @ ls). (pre @ ls) ! nat (argmin_from b bt t ls) \<le> x)"
  using assms
proof (induction ls arbitrary: pre b bt t)
  case Nil
  then show ?case by simp
next
  case (Cons l ls)
  show ?case
  proof (cases "l < b")
    case True
    have "0 \<le> argmin_from l t (t + 1) ls \<and> nat (argmin_from l t (t + 1) ls) < length ((pre @ [l]) @ ls)
         \<and> (\<forall>x\<in>set ((pre @ [l]) @ ls). ((pre @ [l]) @ ls) ! nat (argmin_from l t (t + 1) ls) \<le> x)"
    proof (rule Cons.IH)
      show "0 \<le> t" using Cons.prems by simp
      show "nat t < length (pre @ [l])" using Cons.prems by simp
      show "l = (pre @ [l]) ! nat t" using Cons.prems by simp
      show "\<forall>x\<in>set (pre @ [l]). l \<le> x" using Cons.prems True by fastforce
      show "t + 1 = int (length (pre @ [l]))" using Cons.prems by simp
    qed
    with True show ?thesis by simp
  next
    case False
    have "0 \<le> argmin_from b bt (t + 1) ls \<and> nat (argmin_from b bt (t + 1) ls) < length ((pre @ [l]) @ ls)
         \<and> (\<forall>x\<in>set ((pre @ [l]) @ ls). ((pre @ [l]) @ ls) ! nat (argmin_from b bt (t + 1) ls) \<le> x)"
    proof (rule Cons.IH)
      show "0 \<le> bt" using Cons.prems by simp
      show "nat bt < length (pre @ [l])" using Cons.prems by simp
      show "b = (pre @ [l]) ! nat bt" using Cons.prems by (simp add: nth_append)
      show "\<forall>x\<in>set (pre @ [l]). b \<le> x" using Cons.prems False by auto
      show "t + 1 = int (length (pre @ [l]))" using Cons.prems by simp
    qed
    with False show ?thesis by simp
  qed
qed

lemma best_trial_tid_min:
  assumes "best_trial_tid losses = Inr tid"
  shows "0 \<le> tid \<and> nat tid < length losses \<and> (\<forall>l\<in>set losses. losses ! nat tid \<le> l)"
proof (cases losses)
  case Nil
  with assms show ?thesis by (simp add: best_trial_tid_def)
next
  case (Cons l ls)
  with assms have t: "tid = argmin_from l 0 1 ls" by (simp add: best_trial_tid_def)
  from argmin_from_min [of 0 "[l]" l 1 ls] show ?thesis
    unfolding t Cons by simp
qed

lemma best_trial_tid_None: "(best_trial_tid losses = Inl e) = (losses = [] \<and> e = AllTrialsFailed)"
  by (auto simp: best_trial_tid_def split: list.splits)

lemma example_round_half: "py_round (1 / 2) 4 = 1 / 2"
  by (simp add: py_round_def round_half_even_def Let_def)

lemma example_trial:
  "objective (example_cv [1 / 2, 70663 / 100000]) example_f1 st example_params =
     (example_params(''num_boost_round'' \<mapsto> PyInt 3, ''num_leaves'' \<mapsto> PyInt 63,
                     ''verbose'' \<mapsto> PyInt (- 1), ''seed'' \<mapsto> PyInt 1),
      st\<lparr>early_stop_dict := (early_stop_dict st)(objective_i st \<mapsto> 2),
         objective_i := objective_i st + 1\<rparr>,
      Inr (- (7066 / 10000)))"
proof -
  have h1: "example_params ''num_boost_round'' = Some (PyFloat 3)"
    and h2: "example_params ''num_leaves'' = Some (PyFloat (127 / 2))"
    by (simp_all add: example_params_def)
  show ?thesis
    by (simp add: objective_unfold [OF h1 h2] Let_def example_cv_def example_round)
qed

lemma example_trial1:
  "objective (example_cv [1 / 2, 70663 / 100000]) example_f1 st example_params1 =
     (example_params1(''num_boost_round'' \<mapsto> PyInt 1, ''num_leaves'' \<mapsto> PyInt 31,
                      ''verbose'' \<mapsto> PyInt (- 1), ''seed'' \<mapsto> PyInt 1),
      st\<lparr>early_stop_dict := (early_stop_dict st)(objective_i st \<mapsto> 1),
         objective_i := objective_i st + 1\<rparr>,
      Inr (- (1 / 2)))"
proof -
  have h1: "example_params1 ''num_boost_round'' = Some (PyFloat 1)"
    and h2: "example_params1 ''num_leaves'' = Some (PyFloat 31)"
    by (simp_all add: example_params1_def)
  show ?thesis
    by (simp add: objective_unfold [OF h1 h2] Let_def example_cv_def example_round_half)
qed

lemma example_run:
  "run_trials (example_cv [1 / 2, 70663 / 100000]) example_f1 fresh_state
       [example_params1, example_params] =
     Inr (\<lparr>objective_i = 2, early_stop_dict = [0 \<mapsto> 1, 1 \<mapsto> 2]\<rparr>, [- (1 / 2), - (7066 / 10000)])"
  by (simp add: example_trial example_trial1 fresh_state_def)

text \<open>
  Claim C5. A trial that returns a score stores one entry, under the current counter value,
  and increments the counter by one. After a completed run of \<open>n\<close> trials from the fresh
  state the counter is \<open>n\<close> and the keys of \<^verbatim>\<open>early_stop_dict\<close> are exactly \<open>0, \<dots>, n - 1\<close>; after
  each prefix of \<open>k\<close> trials the keys are \<open>0, \<dots>, k - 1\<close>, so the next trial writes a new key,
  and the dictionary at that point is contained in the final one: no record is overwritten.
\<close>

theorem search_state_bookkeeping:
  "(objective lgb_cv f1_score st params = (params', st', Inr loss) \<longrightarrow>
      (\<exists>rounds. early_stop_dict st' = (early_stop_dict st)(objective_i st \<mapsto> rounds)
         \<and> objective_i st' = objective_i st + 1))
   \<and> (run_trials lgb_cv f1_score fresh_state configs = Inr (st_n, losses) \<longrightarrow>
        objective_i st_n = int (length configs)
        \<and> dom (early_stop_dict st_n) = {0..<int (length configs)}
        \<and> (\<forall>k\<le>length configs. \<exists>st_k losses_k.
              run_trials lgb_cv f1_score fresh_state (take k configs) = Inr (st_k, losses_k)
              \<and> objective_i st_k = int k
              \<and> dom (early_stop_dict st_k) = {0..<int k}
              \<and> early_stop_dict st_k \<subseteq>\<^sub>m early_stop_dict st_n))"
proof -
  have run: "objective_i st_n = int (length configs)
        \<and> dom (early_stop_dict st_n) = {0..<int (length configs)}
        \<and> (\<forall>k\<le>length configs. \<exists>st_k losses_k.
              run_trials lgb_cv f1_score fresh_state (take k configs) = Inr (st_k, losses_k)
              \<and> objective_i st_k = int k
              \<and> dom (early_stop_dict st_k) = {0..<int k}
              \<and> early_stop_dict st_k \<subseteq>\<^sub>m early_stop_dict st_n)"
    if r: "run_trials lgb_cv f1_score fresh_state configs = Inr (st_n, losses)"
  proof -
    have fin: "objective_i st_n = int (length configs)"
      "dom (early_stop_dict st_n) = {0..<int (length configs)}"
      using run_trials_inv [OF r fresh_state_inv]
      by (simp_all add: state_inv_def fresh_state_def)
    have pre: "\<exists>st_k losses_k.
              run_trials lgb_cv f1_score fresh_state (take k configs) = Inr (st_k, losses_k)
              \<and> objective_i st_k = int k
              \<and> dom (early_stop_dict st_k) = {0..<int k}
              \<and> early_stop_dict st_k \<subseteq>\<^sub>m early_stop_dict st_n"
      if k: "k \<le> length configs" for k
    proof -
      from run_trials_prefix [OF r k] obtain st_k losses_k where
        a: "run_trials lgb_cv f1_score fresh_state (take k configs) = Inr (st_k, losses_k)"
        and b: "run_trials lgb_cv f1_score st_k (drop k configs) = Inr (st_n, drop k losses)"
        by blast
      have ia: "state_inv st_k" "objective_i st_k = int k"
        using run_trials_inv [OF a fresh_state_inv] k by (simp_all add: fresh_state_def)
      have "early_stop_dict st_k \<subseteq>\<^sub>m early_stop_dict st_n"
        using run_trials_inv [OF b ia(1)] by simp
      with a ia show ?thesis by (auto simp: state_inv_def)
    qed
    from fin pre show ?thesis by blast
  qed
  from objective_step [of lgb_cv f1_score st params params' st' loss] run show ?thesis
    by blast
qed

theorem search_state_bookkeeping_witness:
  "run_trials (example_cv [1 / 2, 70663 / 100000]) example_f1 fresh_state
       [example_params1, example_params] =
     Inr (\<lparr>objective_i = 2, early_stop_dict = [0 \<mapsto> 1, 1 \<mapsto> 2]\<rparr>, [- (1 / 2), - (7066 / 10000)])
   \<and> objective_i \<lparr>objective_i = 2, early_stop_dict = [0 \<mapsto> 1, 1 \<mapsto> 2]\<rparr>
       = int (length [example_params1, example_params])
   \<and> dom (early_stop_dict \<lparr>objective_i = 2, early_stop_dict = [0 \<mapsto> 1, 1 \<mapsto> 2]\<rparr>)
       = {0..<int (length [example_params1, example_params])}
   \<and> objective (example_cv [1 / 2, 70663 / 100000]) example_f1 fresh_state example_params1 =
       (example_params1(''num_boost_round'' \<mapsto> PyInt 1, ''num_leaves'' \<mapsto> PyInt 31,
                        ''verbose'' \<mapsto> PyInt (- 1), ''seed'' \<mapsto> PyInt 1),
        \<lparr>objective_i = 1, early_stop_dict = [0 \<mapsto> 1]\<rparr>, Inr (- (1 / 2)))
   \<and> (\<exists>rounds. early_stop_dict \<lparr>objective_i = 1, early_stop_dict = [0 \<mapsto> 1]\<rparr>
                  = (early_stop_dict fresh_state)(objective_i fresh_state \<mapsto> rounds)
          \<and> objective_i \<lparr>objective_i = 1, early_stop_dict = [0 \<mapsto> 1]\<rparr>
                  = objective_i fresh_state + 1)"
proof -
  let ?cv = "example_cv [1 / 2, 70663 / 100000]"
  let ?st = "\<lparr>objective_i = 2, early_stop_dict = [0 \<mapsto> 1, 1 \<mapsto> (2::int)]\<rparr>"
  let ?st1 = "\<lparr>objective_i = 1, early_stop_dict = [0 \<mapsto> (1::int)]\<rparr>"
  let ?p1 = "example_params1(''num_boost_round'' \<mapsto> PyInt 1, ''num_leaves'' \<mapsto> PyInt 31,
                             ''verbose'' \<mapsto> PyInt (- 1), ''seed'' \<mapsto> PyInt 1)"
  have o: "objective ?cv example_f1 fresh_state example_params1 = (?p1, ?st1, Inr (- (1 / 2)))"
    by (simp add: example_trial1 fresh_state_def)
  note inst = search_state_bookkeeping
    [of ?cv example_f1 fresh_state example_params1 ?p1 ?st1 "- (1 / 2)"
        "[example_params1, example_params]" ?st "[- (1 / 2), - (7066 / 10000)]"]
  from inst [THEN conjunct1, rule_format, OF o]
       inst [THEN conjunct2, rule_format, OF example_run] o example_run
  show ?thesis by blast
qed

text \<open>
  Claim C4. After a completed run, let \<open>tid\<close> be the identity of the best trial, its position
  in the run. The trial at that position ran with the counter equal to \<open>tid\<close> and recorded
  its realized round count under it; the final dictionary still holds that count under
  \<open>tid\<close>, and the cell after the search puts it into \<^verbatim>\<open>best['num_boost_round']\<close>, in place of
  whatever \<^verbatim>\<open>best\<close> held there.
\<close>

theorem best_num_boost_round:
  assumes "run_trials lgb_cv f1_score fresh_state configs = Inr (st, losses)"
    and "best_trial_tid losses = Inr tid"
    and "best ''num_leaves'' = Some nl"
  shows "\<exists>st_k losses_k rounds.
           0 \<le> tid \<and> nat tid < length configs
           \<and> run_trials lgb_cv f1_score fresh_state (take (nat tid) configs) = Inr (st_k, losses_k)
           \<and> objective_i st_k = tid
           \<and> early_stop_dict (fst (snd (objective lgb_cv f1_score st_k (configs ! nat tid)))) tid
               = Some rounds
           \<and> early_stop_dict st tid = Some rounds
           \<and> retrain_params best st tid =
               Inr (best(''num_boost_round'' \<mapsto> PyInt rounds,
                         ''num_leaves'' \<mapsto> PyInt (py_int nl),
                         ''verbose'' \<mapsto> PyInt (- 1)))
           \<and> (\<forall>l\<in>set losses. losses ! nat tid \<le> l)"
proof -
  let ?k = "nat tid"
  have len: "length losses = length configs"
    by (rule run_trials_length [OF assms(1)])
  from best_trial_tid_min [OF assms(2)] len
  have t: "0 \<le> tid" "?k < length configs" and m: "\<forall>l\<in>set losses. losses ! ?k \<le> l"
    by simp_all
  from t(2) have k: "?k \<le> length configs" by simp
  from run_trials_prefix [OF assms(1) k] obtain st_k losses_k where
    a: "run_trials lgb_cv f1_score fresh_state (take ?k configs) = Inr (st_k, losses_k)"
    and b: "run_trials lgb_cv f1_score st_k (drop ?k configs) = Inr (st, drop ?k losses)"
    by blast
  have ia: "state_inv st_k" "objective_i st_k = tid"
    using run_trials_inv [OF a fresh_state_inv] t by (simp_all add: fresh_state_def)
  have d: "drop ?k configs = configs ! ?k # drop (Suc ?k) configs"
    using t(2) by (simp add: Cons_nth_drop_Suc)
  from b obtain p1 st1 loss ls where
    o: "objective lgb_cv f1_score st_k (configs ! ?k) = (p1, st1, Inr loss)"
    and r: "run_trials lgb_cv f1_score st1 (drop (Suc ?k) configs) = Inr (st, ls)"
    unfolding d by (auto split: prod.splits sum.splits)
  from objective_step [OF o] obtain rounds where
    s: "early_stop_dict st1 = (early_stop_dict st_k)(objective_i st_k \<mapsto> rounds)"
       "objective_i st1 = objective_i st_k + 1"
    by blast
  have inv1: "state_inv st1"
    using ia(1) s by (auto simp: state_inv_def)
  have e1: "early_stop_dict st1 tid = Some rounds"
    using s(1) ia(2) by simp
  have "early_stop_dict st1 \<subseteq>\<^sub>m early_stop_dict st"
    using run_trials_inv [OF r inv1] by simp
  with e1 have e: "early_stop_dict st tid = Some rounds"
    by (auto simp: map_le_def dom_def)
  have f: "early_stop_dict (fst (snd (objective lgb_cv f1_score st_k (configs ! ?k)))) tid = Some rounds"
    using o e1 by simp
  have "retrain_params best st tid =
               Inr (best(''num_boost_round'' \<mapsto> PyInt rounds,
                         ''num_leaves'' \<mapsto> PyInt (py_int nl),
                         ''verbose'' \<mapsto> PyInt (- 1)))"
    using e assms(3) by (simp add: retrain_params_def)
  with t a ia(2) f e m show ?thesis by blast
qed

lemma example_best: "best_trial_tid [- (1 / 2), - (7066 / 10000)] = Inr 1"
  by (simp add: best_trial_tid_def)

theorem best_num_boost_round_witness:
  "run_trials (example_cv [1 / 2, 70663 / 100000]) example_f1 fresh_state
       [example_params1, example_params] =
     Inr (\<lparr>objective_i = 2, early_stop_dict = [0 \<mapsto> 1, 1 \<mapsto> 2]\<rparr>, [- (1 / 2), - (7066 / 10000)])
   \<and> best_trial_tid [- (1 / 2), - (7066 / 10000)] = Inr 1
   \<and> example_params ''num_boost_round'' = Some (PyFloat 3)
   \<and> retrain_params example_params \<lparr>objective_i = 2, early_stop_dict = [0 \<mapsto> 1, 1 \<mapsto> 2]\<rparr> 1 =
       Inr (example_params(''num_boost_round'' \<mapsto> PyInt 2, ''num_leaves'' \<mapsto> PyInt 63,
                           ''verbose'' \<mapsto> PyInt (- 1)))"
proof -
  let ?st = "\<lparr>objective_i = 2, early_stop_dict = [0 \<mapsto> 1, 1 \<mapsto> (2::int)]\<rparr>"
  have nl: "example_params ''num_leaves'' = Some (PyFloat (127 / 2))"
    and nbr: "example_params ''num_boost_round'' = Some (PyFloat 3)"
    by (simp_all add: example_params_def)
  from best_num_boost_round [where best = example_params, OF example_run example_best nl]
  obtain rounds where
    e: "early_stop_dict ?st 1 = Some rounds"
    and r: "retrain_params example_params ?st 1 =
              Inr (example_params(''num_boost_round'' \<mapsto> PyInt rounds,
                                  ''num_leaves'' \<mapsto> PyInt (py_int (PyFloat (127 / 2))),
                                  ''verbose'' \<mapsto> PyInt (- 1)))"
    by blast
  from e have "rounds = 2" by simp
  with r example_run example_best nbr show ?thesis by simp
qed

end
